theory Spec2Isabelle
  imports Main "HOL-Library.Word"
begin

section \<open>Python values, exceptions and the builtins left to the interpreter\<close>

text \<open>
  The port scanner \<^verbatim>\<open>src/tools/port_scanner/scan.py\<close> reads one JSON request from
  standard input, probes TCP ports or terminates the process that owns a port, and
  prints one JSON object.  Its values are the values \<^verbatim>\<open>json.loads\<close> produces; they are
  dynamically typed, so every operation of the source that can raise on a value of the
  wrong type returns a sum here, with \<open>Inl\<close> for the raised exception.

  A Python \<^verbatim>\<open>float\<close> is an IEEE double, kept as its 64-bit pattern.  A Python
  \<^verbatim>\<open>str\<close> is a HOL string, one character per code point (code points below 256).
  A Python \<^verbatim>\<open>dict\<close> with string keys is an association list in insertion order,
  read with \<open>map_of\<close>.
\<close>

type_synonym pyfloat = "64 word"

datatype json =
    JNull
  | JBool bool
  | JInt int
  | JFloat pyfloat
  | JStr string
  | JArr "json list"
  | JObj "(string \<times> json) list"

text \<open>
  The exceptions are the instances of Python's class \<^verbatim>\<open>Exception\<close> that the
  source tells apart (\<^verbatim>\<open>json.JSONDecodeError\<close>, \<^verbatim>\<open>ProcessLookupError\<close>,
  \<^verbatim>\<open>PermissionError\<close>) or raises itself (\<^verbatim>\<open>ValueError\<close> with its message), and
  the ones the builtins raise.  \<open>OtherError\<close> stands for every other subclass of
  \<^verbatim>\<open>Exception\<close>, named by its payload.  \<^verbatim>\<open>KeyboardInterrupt\<close> and the other
  exceptions outside \<^verbatim>\<open>Exception\<close> come from signals, not from the request, and are
  not modelled.
\<close>

datatype exn =
    ValueError string
  | JSONDecodeError string
  | TypeError
  | KeyError
  | ProcessLookupError
  | PermissionError
  | CalledProcessError
  | OtherError string

text \<open>
  What the Python interpreter and its standard library compute, and the source does
  not: parsing JSON, float arithmetic and comparison, comparison of values that are
  not both integers, the text of builtin exceptions, \<^verbatim>\<open>str()\<close> of floats and
  containers, \<^verbatim>\<open>int()\<close> of a string that is not a plain run of digits.  The program
  is a function of these; the theorems hold for all of them.
\<close>

record builtins =
  bi_loads :: "string \<Rightarrow> exn + json"
  bi_int :: "string \<Rightarrow> exn + int"
  bi_str :: "json \<Rightarrow> string"
  bi_exn_text :: "exn \<Rightarrow> string"
  bi_gt :: "json \<Rightarrow> json \<Rightarrow> exn + bool"
  bi_le :: "json \<Rightarrow> json \<Rightarrow> exn + bool"
  bi_sub :: "json \<Rightarrow> json \<Rightarrow> exn + pyfloat"
  bi_add :: "json \<Rightarrow> json \<Rightarrow> exn + pyfloat"
  bi_round_diff :: "pyfloat \<Rightarrow> pyfloat \<Rightarrow> pyfloat"

definition ex_bind :: "exn + 'a \<Rightarrow> ('a \<Rightarrow> exn + 'b) \<Rightarrow> exn + 'b" where
  "ex_bind r f = (case r of Inl e \<Rightarrow> Inl e | Inr x \<Rightarrow> f x)"

subsection \<open>Strings\<close>

definition py_isspace :: "char \<Rightarrow> bool" where
  "py_isspace c = (c \<in> set [CHR 0x09, CHR 0x0A, CHR 0x0B, CHR 0x0C, CHR 0x0D,
     CHR 0x1C, CHR 0x1D, CHR 0x1E, CHR 0x1F, CHR 0x20, CHR 0x85, CHR 0xA0])"

definition py_strip :: "string \<Rightarrow> string" where
  \<comment> \<open>\<^verbatim>\<open>s.strip()\<close>\<close>
  "py_strip s = rev (dropWhile py_isspace (rev (dropWhile py_isspace s)))"

fun py_split :: "char \<Rightarrow> string \<Rightarrow> string list" where
  \<comment> \<open>\<^verbatim>\<open>s.split(c)\<close> for a one-character separator: never empty\<close>
  "py_split c [] = [[]]"
| "py_split c (x # xs) =
     (if x = c then [] # py_split c xs
      else (case py_split c xs of [] \<Rightarrow> [[x]] | y # ys \<Rightarrow> (x # y) # ys))"

fun py_split_ws :: "string \<Rightarrow> string \<Rightarrow> string list" where
  \<comment> \<open>\<^verbatim>\<open>s.split()\<close>: the maximal runs of non-space characters; the first argument
      is the run being read\<close>
  "py_split_ws cur [] = (if cur = [] then [] else [cur])"
| "py_split_ws cur (c # cs) =
     (if py_isspace c then (if cur = [] then py_split_ws [] cs else cur # py_split_ws [] cs)
      else py_split_ws (cur @ [c]) cs)"

fun starts_with :: "string \<Rightarrow> string \<Rightarrow> bool" where
  "starts_with [] s = True"
| "starts_with (n # ns) [] = False"
| "starts_with (n # ns) (c # cs) = (n = c \<and> starts_with ns cs)"

fun py_substr :: "string \<Rightarrow> string \<Rightarrow> bool" where
  \<comment> \<open>\<^verbatim>\<open>needle in s\<close> on strings\<close>
  "py_substr needle [] = (needle = [])"
| "py_substr needle (c # cs) = (starts_with needle (c # cs) \<or> py_substr needle cs)"

fun digits_of :: "nat \<Rightarrow> string" where
  "digits_of n =
     (if n < 10 then [''0123456789'' ! n]
      else digits_of (n div 10) @ [''0123456789'' ! (n mod 10)])"

definition show_int :: "int \<Rightarrow> string" where
  \<comment> \<open>\<^verbatim>\<open>str(i)\<close> of an integer\<close>
  "show_int i = (if i < 0 then CHR ''-'' # digits_of (nat (- i)) else digits_of (nat i))"

definition digit_value :: "char \<Rightarrow> nat option" where
  \<comment> \<open>the value of an ASCII digit\<close>
  "digit_value c = map_of (zip ''0123456789'' [0, 1, 2, 3, 4, 5, 6, 7, 8, 9]) c"

fun read_digits :: "nat \<Rightarrow> string \<Rightarrow> nat option" where
  "read_digits acc [] = Some acc"
| "read_digits acc (c # cs) =
     (case digit_value c of None \<Rightarrow> None | Some d \<Rightarrow> read_digits (10 * acc + d) cs)"

definition py_int :: "builtins \<Rightarrow> string \<Rightarrow> exn + int" where
  \<comment> \<open>\<^verbatim>\<open>int(s)\<close>: a non-empty run of at most 4300 ASCII digits is read here; longer
      runs (which the interpreter may refuse), signs, blanks, underscores and the
      \<^verbatim>\<open>ValueError\<close> of anything else are the interpreter's\<close>
  "py_int py s =
     (case (if s = [] \<or> length s > 4300 then None else read_digits 0 s) of
        Some n \<Rightarrow> Inr (int n)
      | None \<Rightarrow> bi_int py s)"

fun py_str :: "builtins \<Rightarrow> json \<Rightarrow> string" where
  \<comment> \<open>\<^verbatim>\<open>f"{v}"\<close>, that is \<^verbatim>\<open>str(v)\<close>\<close>
  "py_str py (JInt i) = show_int i"
| "py_str py (JStr s) = s"
| "py_str py (JBool b) = (if b then ''True'' else ''False'')"
| "py_str py JNull = ''None''"
| "py_str py v = bi_str py v"

definition exn_str :: "builtins \<Rightarrow> exn \<Rightarrow> string" where
  \<comment> \<open>\<^verbatim>\<open>str(e)\<close>\<close>
  "exn_str py e =
     (case e of ValueError m \<Rightarrow> m | JSONDecodeError m \<Rightarrow> m | _ \<Rightarrow> bi_exn_text py e)"

subsection \<open>Dynamically typed operations\<close>

fun as_int :: "json \<Rightarrow> int option" where
  \<comment> \<open>\<^verbatim>\<open>bool\<close> is a subclass of \<^verbatim>\<open>int\<close>\<close>
  "as_int (JInt i) = Some i"
| "as_int (JBool b) = Some (if b then 1 else 0)"
| "as_int v = None"

fun is_number :: "json \<Rightarrow> bool" where
  "is_number (JInt i) = True"
| "is_number (JBool b) = True"
| "is_number (JFloat f) = True"
| "is_number v = False"

fun py_truthy :: "json \<Rightarrow> bool" where
  "py_truthy JNull = False"
| "py_truthy (JBool b) = b"
| "py_truthy (JInt i) = (i \<noteq> 0)"
| "py_truthy (JFloat f) = (f \<noteq> 0 \<and> f \<noteq> 0x8000000000000000)"
| "py_truthy (JStr s) = (s \<noteq> [])"
| "py_truthy (JArr xs) = (xs \<noteq> [])"
| "py_truthy (JObj kvs) = (kvs \<noteq> [])"

definition py_gt :: "builtins \<Rightarrow> json \<Rightarrow> json \<Rightarrow> exn + bool" where
  \<comment> \<open>\<^verbatim>\<open>a > b\<close>\<close>
  "py_gt py a b =
     (case (as_int a, as_int b) of (Some x, Some y) \<Rightarrow> Inr (x > y) | _ \<Rightarrow> bi_gt py a b)"

definition py_le :: "builtins \<Rightarrow> json \<Rightarrow> json \<Rightarrow> exn + bool" where
  \<comment> \<open>\<^verbatim>\<open>a <= b\<close>\<close>
  "py_le py a b =
     (case (as_int a, as_int b) of (Some x, Some y) \<Rightarrow> Inr (x \<le> y) | _ \<Rightarrow> bi_le py a b)"

definition py_sub :: "builtins \<Rightarrow> json \<Rightarrow> json \<Rightarrow> exn + json" where
  \<comment> \<open>\<^verbatim>\<open>a - b\<close>: defined on numbers only\<close>
  "py_sub py a b =
     (case (as_int a, as_int b) of
        (Some x, Some y) \<Rightarrow> Inr (JInt (x - y))
      | _ \<Rightarrow> if is_number a \<and> is_number b
             then (case bi_sub py a b of Inl e \<Rightarrow> Inl e | Inr f \<Rightarrow> Inr (JFloat f))
             else Inl TypeError)"

definition py_add_int :: "builtins \<Rightarrow> json \<Rightarrow> int \<Rightarrow> exn + json" where
  \<comment> \<open>\<^verbatim>\<open>a + n\<close> for an integer literal \<open>n\<close>: defined when \<open>a\<close> is a number\<close>
  "py_add_int py a n =
     (case as_int a of
        Some x \<Rightarrow> Inr (JInt (x + n))
      | None \<Rightarrow> if is_number a
             then (case bi_add py a (JInt n) of Inl e \<Rightarrow> Inl e | Inr f \<Rightarrow> Inr (JFloat f))
             else Inl TypeError)"

definition py_min_int :: "builtins \<Rightarrow> json \<Rightarrow> int \<Rightarrow> exn + json" where
  \<comment> \<open>\<^verbatim>\<open>min(a, n)\<close>: \<open>n\<close> replaces \<open>a\<close> when it is smaller\<close>
  "py_min_int py a n =
     (case py_gt py a (JInt n) of Inl e \<Rightarrow> Inl e | Inr c \<Rightarrow> Inr (if c then JInt n else a))"

definition py_len :: "json \<Rightarrow> exn + nat" where
  "py_len v =
     (case v of
        JStr s \<Rightarrow> Inr (length s)
      | JArr xs \<Rightarrow> Inr (length xs)
      | JObj kvs \<Rightarrow> Inr (length (remdups (map fst kvs)))
      | _ \<Rightarrow> Inl TypeError)"

definition py_index :: "json \<Rightarrow> nat \<Rightarrow> exn + json" where
  \<comment> \<open>\<^verbatim>\<open>v[i]\<close> for a literal index \<open>i\<close>; a \<^verbatim>\<open>dict\<close> from JSON has no integer key\<close>
  "py_index v i =
     (case v of
        JArr xs \<Rightarrow> if i < length xs then Inr (xs ! i) else Inl (OtherError ''IndexError'')
      | JStr s \<Rightarrow> if i < length s then Inr (JStr [s ! i]) else Inl (OtherError ''IndexError'')
      | JObj kvs \<Rightarrow> Inl KeyError
      | _ \<Rightarrow> Inl TypeError)"

definition py_setitem :: "json \<Rightarrow> nat \<Rightarrow> json \<Rightarrow> exn + json" where
  \<comment> \<open>\<^verbatim>\<open>v[i] = x\<close> on a list, returning the updated list; the source reaches it only
      after \<^verbatim>\<open>v[0]\<close> and \<^verbatim>\<open>v[1]\<close> were read and subtracted, which a list alone allows\<close>
  "py_setitem v i x =
     (case v of
        JArr xs \<Rightarrow> if i < length xs then Inr (JArr (xs[i := x])) else Inl (OtherError ''IndexError'')
      | _ \<Rightarrow> Inl TypeError)"

definition py_contains :: "string \<Rightarrow> json \<Rightarrow> exn + bool" where
  \<comment> \<open>\<^verbatim>\<open>k in v\<close> for a string \<open>k\<close>\<close>
  "py_contains k v =
     (case v of
        JObj kvs \<Rightarrow> Inr (k \<in> set (map fst kvs))
      | JArr xs \<Rightarrow> Inr (JStr k \<in> set xs)
      | JStr s \<Rightarrow> Inr (py_substr k s)
      | _ \<Rightarrow> Inl TypeError)"

definition py_getitem :: "json \<Rightarrow> string \<Rightarrow> exn + json" where
  \<comment> \<open>\<^verbatim>\<open>v[k]\<close> for a string \<open>k\<close>\<close>
  "py_getitem v k =
     (case v of
        JObj kvs \<Rightarrow> (case map_of kvs k of None \<Rightarrow> Inl KeyError | Some x \<Rightarrow> Inr x)
      | _ \<Rightarrow> Inl TypeError)"

definition py_get :: "json \<Rightarrow> string \<Rightarrow> json \<Rightarrow> exn + json" where
  \<comment> \<open>\<^verbatim>\<open>v.get(k, d)\<close>\<close>
  "py_get v k d =
     (case v of
        JObj kvs \<Rightarrow> (case map_of kvs k of None \<Rightarrow> Inr d | Some x \<Rightarrow> Inr x)
      | _ \<Rightarrow> Inl (OtherError ''AttributeError''))"

definition py_range :: "json \<Rightarrow> json \<Rightarrow> exn + int list" where
  \<comment> \<open>\<^verbatim>\<open>range(a, b)\<close>: integers only\<close>
  "py_range a b =
     (case (as_int a, as_int b) of
        (Some x, Some y) \<Rightarrow> Inr [x..y - 1]
      | _ \<Rightarrow> Inl TypeError)"

section \<open>The operating system\<close>

text \<open>
  The program acts on the world through sockets, subprocesses, signals, the clock and
  the standard streams.  The world is a state \<open>'w\<close> with one transition function for
  each of these calls; a computation takes a world and returns its result (a value or
  a raised exception), the calls it made in order, each with its arguments and its
  outcome, and the new world.
\<close>

datatype cmd = Shell string | Argv "string list"

datatype signal = SIGTERM | SIGKILL

record 'w os =
  os_nt :: bool
  os_stdin :: "'w \<Rightarrow> (exn + string) \<times> 'w"
  os_connect :: "'w \<Rightarrow> string \<Rightarrow> json \<Rightarrow> pyfloat \<Rightarrow> (exn + int) \<times> 'w"
  os_run :: "'w \<Rightarrow> cmd \<Rightarrow> (exn + int \<times> string) \<times> 'w"
  os_kill :: "'w \<Rightarrow> int \<Rightarrow> signal \<Rightarrow> (exn + unit) \<times> 'w"
  os_sleep :: "'w \<Rightarrow> nat \<Rightarrow> 'w"
  os_time :: "'w \<Rightarrow> pyfloat \<times> 'w"

datatype event =
    ERead "exn + string"
  | EConnect string json pyfloat "exn + int"
  | ERun cmd "exn + int \<times> string"
  | EKill int signal "exn + unit"
  | ESleep nat
  | ETime pyfloat
  | EPrint json

type_synonym ('a, 'w) io = "'w \<Rightarrow> (exn + 'a) \<times> event list \<times> 'w"

definition io_return :: "'a \<Rightarrow> ('a, 'w) io" where
  "io_return x w = (Inr x, [], w)"

definition io_raise :: "exn \<Rightarrow> ('a, 'w) io" where
  "io_raise e w = (Inl e, [], w)"

definition io_lift :: "exn + 'a \<Rightarrow> ('a, 'w) io" where
  "io_lift r w = (r, [], w)"

definition io_bind :: "('a, 'w) io \<Rightarrow> ('a \<Rightarrow> ('b, 'w) io) \<Rightarrow> ('b, 'w) io" where
  \<comment> \<open>sequencing: an exception of the first part skips the second\<close>
  "io_bind m f w =
     (case m w of
        (Inl e, evs, w1) \<Rightarrow> (Inl e, evs, w1)
      | (Inr x, evs, w1) \<Rightarrow> (case f x w1 of (r, evs2, w2) \<Rightarrow> (r, evs @ evs2, w2)))"

definition io_try :: "('a, 'w) io \<Rightarrow> (exn \<Rightarrow> ('a, 'w) io) \<Rightarrow> ('a, 'w) io" where
  \<comment> \<open>\<^verbatim>\<open>try: m  except Exception as e: h e\<close>\<close>
  "io_try m h w =
     (case m w of
        (Inr x, evs, w1) \<Rightarrow> (Inr x, evs, w1)
      | (Inl e, evs, w1) \<Rightarrow> (case h e w1 of (r, evs2, w2) \<Rightarrow> (r, evs @ evs2, w2)))"

definition io_res :: "(exn + 'a) \<times> event list \<times> 'w \<Rightarrow> exn + 'a" where
  "io_res x = fst x"

definition io_log :: "'r \<times> event list \<times> 'w \<Rightarrow> event list" where
  "io_log x = fst (snd x)"

definition io_world :: "'r \<times> event list \<times> 'w \<Rightarrow> 'w" where
  "io_world x = snd (snd x)"

definition stdin_read :: "'w os \<Rightarrow> (string, 'w) io" where
  \<comment> \<open>\<^verbatim>\<open>sys.stdin.read()\<close>\<close>
  "stdin_read os w = (case os_stdin os w of (r, w1) \<Rightarrow> (r, [ERead r], w1))"

definition connect_ex :: "'w os \<Rightarrow> string \<Rightarrow> json \<Rightarrow> pyfloat \<Rightarrow> (int, 'w) io" where
  \<comment> \<open>the \<^verbatim>\<open>with socket.socket(...)\<close> block of \<^verbatim>\<open>scan_port\<close>: create the socket,
      set the timeout, \<^verbatim>\<open>connect_ex((host, port))\<close>, close; the error code, or the
      exception any of these raised\<close>
  "connect_ex os host port timeout w =
     (case os_connect os w host port timeout of
        (r, w1) \<Rightarrow> (r, [EConnect host port timeout r], w1))"

definition subprocess_run :: "'w os \<Rightarrow> cmd \<Rightarrow> bool \<Rightarrow> (int \<times> string, 'w) io" where
  \<comment> \<open>\<^verbatim>\<open>subprocess.run\<close>: the return code and the captured output; with
      \<^verbatim>\<open>check=True\<close> a non-zero return code raises\<close>
  "subprocess_run os c check w =
     (case os_run os w c of
        (r, w1) \<Rightarrow>
          ((case r of
              Inl e \<Rightarrow> Inl e
            | Inr (rc, out) \<Rightarrow> if check \<and> rc \<noteq> 0 then Inl CalledProcessError else Inr (rc, out)),
           [ERun c r], w1))"

definition kill :: "'w os \<Rightarrow> int \<Rightarrow> signal \<Rightarrow> (unit, 'w) io" where
  \<comment> \<open>\<^verbatim>\<open>os.kill(pid, sig)\<close>\<close>
  "kill os pid sg w = (case os_kill os w pid sg of (r, w1) \<Rightarrow> (r, [EKill pid sg r], w1))"

definition sleep :: "'w os \<Rightarrow> nat \<Rightarrow> (unit, 'w) io" where
  \<comment> \<open>\<^verbatim>\<open>time.sleep(n)\<close>\<close>
  "sleep os n w = (Inr (), [ESleep n], os_sleep os w n)"

definition time_now :: "'w os \<Rightarrow> (pyfloat, 'w) io" where
  \<comment> \<open>\<^verbatim>\<open>time.time()\<close>\<close>
  "time_now os w = (case os_time os w of (t, w1) \<Rightarrow> (Inr t, [ETime t], w1))"

definition print_json :: "json \<Rightarrow> (unit, 'w) io" where
  \<comment> \<open>\<^verbatim>\<open>print(json.dumps(v))\<close>: one line on standard output\<close>
  "print_json v w = (Inr (), [EPrint v], w)"

section \<open>The port scanner\<close>

definition COMMON_PORTS :: "int list" where
  "COMMON_PORTS =
     [21, 22, 23, 25, 53, 80, 110, 143, 443, 993, 995,
      1433, 1521, 3306, 5432, 6379, 27017,
      3000, 3001, 4000, 5000, 5173, 8000, 8080, 8443,
      9000, 9001, 9090, 3030, 4200, 5500, 8888, 9999]"

definition default_timeout :: pyfloat where
  \<comment> \<open>the double \<^verbatim>\<open>0.1\<close>\<close>
  "default_timeout = 0x3FB999999999999A"

subsection \<open>\<^verbatim>\<open>scan_port\<close>\<close>

definition scan_port :: "'w os \<Rightarrow> string \<Rightarrow> json \<Rightarrow> pyfloat \<Rightarrow> (bool, 'w) io" where
  "scan_port os host port timeout =
     io_try
       (io_bind (connect_ex os host port timeout) (\<lambda>result. io_return (result = 0)))
       (\<lambda>e. io_return False)"

subsection \<open>\<^verbatim>\<open>get_process_info\<close>\<close>

record process_info =
  process_id :: string
  process_name :: string
  process_command :: string

definition ps_comm :: "string \<Rightarrow> cmd" where
  "ps_comm pid = Argv [''ps'', ''-p'', pid, ''-o'', ''comm='']"

definition ps_args :: "string \<Rightarrow> cmd" where
  "ps_args pid = Argv [''ps'', ''-p'', pid, ''-o'', ''args='']"

definition split_pid_info :: "string \<Rightarrow> string \<times> string" where
  \<comment> \<open>the last column of a listener line, \<^verbatim>\<open>PID/process_name\<close>: split at the first
      slash, or the whole column as the pid and the name unknown\<close>
  "split_pid_info pid_info =
     (if CHR ''/'' \<in> set pid_info
      then (takeWhile (\<lambda>c. c \<noteq> CHR ''/'') pid_info, tl (dropWhile (\<lambda>c. c \<noteq> CHR ''/'') pid_info))
      else (pid_info, ''unknown''))"

fun first_listener :: "string \<Rightarrow> string list \<Rightarrow> (string \<times> string) option" where
  \<comment> \<open>the loop over the lines of the listener table: the first line that contains
      \<^verbatim>\<open>:port\<close> and has more than six columns gives the pid and the name\<close>
  "first_listener needle [] = None"
| "first_listener needle (line # lines) =
     (if py_substr needle line \<and> length (py_split_ws [] line) > 6
      then Some (split_pid_info (last (py_split_ws [] line)))
      else first_listener needle lines)"

definition listener_details :: "'w os \<Rightarrow> string \<Rightarrow> string \<Rightarrow> (process_info, 'w) io" where
  \<comment> \<open>the inner \<^verbatim>\<open>try\<close> of the listener branch: ask \<^verbatim>\<open>ps\<close> for the name and the
      command line; when a call raises, the name found so far is kept and the command
      is unknown\<close>
  "listener_details os pid name0 =
     (if os_nt os
      then io_return \<lparr>process_id = pid, process_name = name0, process_command = ''unknown''\<rparr>
      else
        io_try
          (io_bind (subprocess_run os (ps_comm pid) False) (\<lambda>(rc1, out1).
             let name1 = (if rc1 = 0 then py_strip out1 else name0) in
             io_try
               (io_bind (subprocess_run os (ps_args pid) False) (\<lambda>(rc2, out2).
                  io_return \<lparr>process_id = pid, process_name = name1,
                    process_command = (if rc2 = 0 then py_strip out2 else ''unknown'')\<rparr>))
               (\<lambda>e. io_return
                  \<lparr>process_id = pid, process_name = name1, process_command = ''unknown''\<rparr>)))
          (\<lambda>e. io_return
             \<lparr>process_id = pid, process_name = name0, process_command = ''unknown''\<rparr>))"

definition lsof_lookup :: "builtins \<Rightarrow> 'w os \<Rightarrow> json \<Rightarrow> (process_info option, 'w) io" where
  \<comment> \<open>the fallback: \<^verbatim>\<open>lsof -i :port -t\<close>, then \<^verbatim>\<open>ps\<close>; any exception is dropped\<close>
  "lsof_lookup py os port =
     io_try
       (io_bind (subprocess_run os (Argv [''lsof'', ''-i'', '':'' @ py_str py port, ''-t'']) False)
          (\<lambda>(rc, out).
            if rc = 0 \<and> py_strip out \<noteq> []
            then
              let pid = (case py_split (CHR 0x0A) (py_strip out) of [] \<Rightarrow> [] | l # ls \<Rightarrow> l) in
              io_bind (subprocess_run os (ps_comm pid) False) (\<lambda>(rc1, out1).
              io_bind (subprocess_run os (ps_args pid) False) (\<lambda>(rc2, out2).
                io_return (Some
                  \<lparr>process_id = pid,
                   process_name = (if rc1 = 0 then py_strip out1 else ''unknown''),
                   process_command = (if rc2 = 0 then py_strip out2 else ''unknown'')\<rparr>)))
            else io_return None))
       (\<lambda>e. io_return None)"

definition get_process_info :: "builtins \<Rightarrow> 'w os \<Rightarrow> json \<Rightarrow> (process_info option, 'w) io" where
  "get_process_info py os port =
     io_try
       (io_bind
          (subprocess_run os
             (Shell ((if os_nt os then ''netstat -ano | findstr :''
                      else ''netstat -tlnp 2>/dev/null | grep :'') @ py_str py port))
             False)
          (\<lambda>(rc, out).
            case (if rc = 0 \<and> py_strip out \<noteq> []
                  then first_listener ('':'' @ py_str py port) (py_split (CHR 0x0A) (py_strip out))
                  else None) of
              Some (pid, name0) \<Rightarrow>
                io_bind (listener_details os pid name0) (\<lambda>info. io_return (Some info))
            | None \<Rightarrow> if \<not> os_nt os then lsof_lookup py os port else io_return None))
       (\<lambda>e. io_return None)"

subsection \<open>\<^verbatim>\<open>close_port\<close>\<close>

definition graceful_kill :: "'w os \<Rightarrow> int \<Rightarrow> (unit, 'w) io" where
  "graceful_kill os pid =
     (if os_nt os
      then io_bind (subprocess_run os (Argv [''taskkill'', ''/PID'', show_int pid]) True)
             (\<lambda>r. io_return ())
      else kill os pid SIGTERM)"

definition forced_kill :: "'w os \<Rightarrow> int \<Rightarrow> (unit, 'w) io" where
  "forced_kill os pid =
     (if os_nt os
      then io_bind (subprocess_run os (Argv [''taskkill'', ''/F'', ''/PID'', show_int pid]) True)
             (\<lambda>r. io_return ())
      else kill os pid SIGKILL)"

definition terminate_failed :: "builtins \<Rightarrow> json \<Rightarrow> exn \<Rightarrow> bool \<times> string" where
  \<comment> \<open>the three handlers of the inner \<^verbatim>\<open>try\<close> of \<^verbatim>\<open>close_port\<close>\<close>
  "terminate_failed py port e =
     (case e of
        ProcessLookupError \<Rightarrow>
          (True, ''Process using port '' @ py_str py port @ '' was already terminated'')
      | PermissionError \<Rightarrow>
          (False, ''Permission denied - cannot terminate process using port '' @ py_str py port)
      | _ \<Rightarrow>
          (False, ''Failed to terminate process using port '' @ py_str py port
             @ '': '' @ exn_str py e))"

definition terminate_owner ::
  "builtins \<Rightarrow> 'w os \<Rightarrow> json \<Rightarrow> string \<Rightarrow> int \<Rightarrow> (bool \<times> string, 'w) io" where
  \<comment> \<open>the inner \<^verbatim>\<open>try\<close> of \<^verbatim>\<open>close_port\<close>: terminate, wait, probe; kill, wait,
      probe\<close>
  "terminate_owner py os port name pid =
     io_try
       (io_bind (graceful_kill os pid) (\<lambda>u.
        io_bind (sleep os 1) (\<lambda>u.
        io_bind (scan_port os ''127.0.0.1'' port default_timeout) (\<lambda>still_open.
          if \<not> still_open
          then io_return (True, ''Successfully closed port '' @ py_str py port
                 @ '' (terminated '' @ name @ '', PID: '' @ show_int pid @ '')'')
          else
            io_bind (forced_kill os pid) (\<lambda>u.
            io_bind (sleep os 1) (\<lambda>u.
            io_bind (scan_port os ''127.0.0.1'' port default_timeout) (\<lambda>still_open2.
              if \<not> still_open2
              then io_return (True, ''Successfully closed port '' @ py_str py port
                     @ '' (force killed '' @ name @ '', PID: '' @ show_int pid @ '')'')
              else io_return (False, ''Failed to close port '' @ py_str py port
                     @ '' - process may be protected''))))))))
       (\<lambda>e. io_return (terminate_failed py port e))"

definition close_port :: "builtins \<Rightarrow> 'w os \<Rightarrow> json \<Rightarrow> (bool \<times> string, 'w) io" where
  "close_port py os port =
     io_try
       (io_bind (get_process_info py os port) (\<lambda>info.
          case info of
            None \<Rightarrow> io_return (False, ''No process found using port '' @ py_str py port)
          | Some process_info \<Rightarrow>
              io_bind (io_lift (py_int py (process_id process_info))) (\<lambda>pid.
                terminate_owner py os port (process_name process_info) pid)))
       (\<lambda>e. io_return (False, ''Error closing port '' @ py_str py port @ '': '' @ exn_str py e))"

subsection \<open>\<^verbatim>\<open>scan_ports\<close>\<close>

fun common_in_range :: "builtins \<Rightarrow> json \<Rightarrow> int list \<Rightarrow> exn + int list" where
  \<comment> \<open>\<^verbatim>\<open>[p for p in ports if port_range[0] <= p <= port_range[1]]\<close>: the second
      comparison is made only when the first holds\<close>
  "common_in_range py port_range [] = Inr []"
| "common_in_range py port_range (p # ps) =
     (case ex_bind (py_index port_range 0) (\<lambda>lo. ex_bind (py_le py lo (JInt p)) (\<lambda>c1.
             if c1 then ex_bind (py_index port_range 1) (\<lambda>hi. py_le py (JInt p) hi)
             else Inr False)) of
        Inl e \<Rightarrow> Inl e
      | Inr keep \<Rightarrow>
          (case common_in_range py port_range ps of
             Inl e \<Rightarrow> Inl e
           | Inr rest \<Rightarrow> Inr (if keep then p # rest else rest)))"

definition ports_to_scan :: "builtins \<Rightarrow> json \<Rightarrow> json \<Rightarrow> exn + int list" where
  \<comment> \<open>the planned list of \<^verbatim>\<open>scan_ports\<close>\<close>
  "ports_to_scan py port_range common_ports_only =
     (if py_truthy common_ports_only
      then common_in_range py port_range COMMON_PORTS
      else ex_bind (py_index port_range 0) (\<lambda>lo.
           ex_bind (py_index port_range 1) (\<lambda>hi.
           ex_bind (py_add_int py hi 1) (\<lambda>hi1. py_range lo hi1))))"

definition port_info :: "int \<Rightarrow> process_info option \<Rightarrow> json" where
  \<comment> \<open>the record of an open port: the placeholders, overwritten by
      \<^verbatim>\<open>port_info.update(process_info)\<close> when the owner was found\<close>
  "port_info port info =
     JObj [(''port'', JInt port), (''protocol'', JStr ''tcp''),
       (''process_name'', JStr (case info of None \<Rightarrow> ''unknown'' | Some i \<Rightarrow> process_name i)),
       (''process_id'', JStr (case info of None \<Rightarrow> ''unknown'' | Some i \<Rightarrow> process_id i)),
       (''process_command'',
          JStr (case info of None \<Rightarrow> ''unknown'' | Some i \<Rightarrow> process_command i))]"

definition scan_ports_body ::
  "builtins \<Rightarrow> 'w os \<Rightarrow> string \<Rightarrow> int \<Rightarrow> json list \<Rightarrow> (json list, 'w) io" where
  \<comment> \<open>the body of the loop over the planned ports\<close>
  "scan_ports_body py os host port open_ports =
     io_bind (scan_port os host (JInt port) default_timeout) (\<lambda>is_open.
       if is_open
       then io_bind (get_process_info py os (JInt port)) (\<lambda>info.
              io_return (open_ports @ [port_info port info]))
       else io_return open_ports)"

fun scan_ports_loop ::
  "builtins \<Rightarrow> 'w os \<Rightarrow> string \<Rightarrow> int list \<Rightarrow> json list \<Rightarrow> (json list, 'w) io" where
  "scan_ports_loop py os host [] open_ports w = (Inr open_ports, [], w)"
| "scan_ports_loop py os host (port # ports) open_ports w =
     (case scan_ports_body py os host port open_ports w of
        (Inl e, evs, w1) \<Rightarrow> (Inl e, evs, w1)
      | (Inr open_ports1, evs, w1) \<Rightarrow>
          (case scan_ports_loop py os host ports open_ports1 w1 of
             (r, evs2, w2) \<Rightarrow> (r, evs @ evs2, w2)))"

definition scan_ports :: "builtins \<Rightarrow> 'w os \<Rightarrow> string \<Rightarrow> json \<Rightarrow> json \<Rightarrow> (json list, 'w) io" where
  "scan_ports py os host port_range common_ports_only =
     io_bind (io_lift (ports_to_scan py port_range common_ports_only)) (\<lambda>ports.
       scan_ports_loop py os host ports [])"

subsection \<open>\<^verbatim>\<open>main\<close>\<close>

definition invalid_port_range :: "builtins \<Rightarrow> json \<Rightarrow> exn + bool" where
  \<comment> \<open>\<^verbatim>\<open>len(port_range) != 2 or port_range[0] > port_range[1]\<close>\<close>
  "invalid_port_range py port_range =
     ex_bind (py_len port_range) (\<lambda>n.
       if n \<noteq> 2 then Inr True
       else ex_bind (py_index port_range 0) (\<lambda>lo.
            ex_bind (py_index port_range 1) (\<lambda>hi. py_gt py lo hi)))"

definition limit_range :: "builtins \<Rightarrow> json \<Rightarrow> json \<Rightarrow> exn + json" where
  \<comment> \<open>the safety limit: \<^verbatim>\<open>if port_range[1] - port_range[0] > 10000 and not
      common_ports_only: port_range[1] = port_range[0] + 10000\<close>; returns the list as
      it is afterwards\<close>
  "limit_range py port_range common_ports_only =
     ex_bind (py_index port_range 1) (\<lambda>hi.
     ex_bind (py_index port_range 0) (\<lambda>lo.
     ex_bind (py_sub py hi lo) (\<lambda>span.
     ex_bind (py_gt py span (JInt 10000)) (\<lambda>wide.
       if wide \<and> \<not> py_truthy common_ports_only
       then ex_bind (py_index port_range 0) (\<lambda>lo2.
            ex_bind (py_add_int py lo2 10000) (\<lambda>hi2. py_setitem port_range 1 hi2))
       else Inr port_range))))"

definition total_scanned :: "builtins \<Rightarrow> json \<Rightarrow> json \<Rightarrow> exn + json" where
  "total_scanned py port_range common_ports_only =
     (if py_truthy common_ports_only
      then ex_bind (common_in_range py port_range COMMON_PORTS) (\<lambda>ps. Inr (JInt (int (length ps))))
      else ex_bind (py_index port_range 1) (\<lambda>hi.
           ex_bind (py_index port_range 0) (\<lambda>lo.
           ex_bind (py_sub py hi lo) (\<lambda>d.
           ex_bind (py_add_int py d 1) (\<lambda>n. py_min_int py n 10001)))))"

definition main_scan :: "builtins \<Rightarrow> 'w os \<Rightarrow> json \<Rightarrow> (json, 'w) io" where
  \<comment> \<open>the branch \<^verbatim>\<open>action == "scan"\<close> of \<^verbatim>\<open>main\<close>, up to the result dictionary\<close>
  "main_scan py os data =
     io_bind (io_lift (py_get data ''port_range'' (JArr [JInt 1, JInt 65535]))) (\<lambda>port_range0.
     io_bind (io_lift (py_get data ''common_ports_only'' (JBool False))) (\<lambda>common_ports_only.
     io_bind (io_lift (invalid_port_range py port_range0)) (\<lambda>invalid.
       if invalid
       then io_raise (ValueError ''Invalid port_range: must be [start_port, end_port]'')
       else
         io_bind (io_lift (limit_range py port_range0 common_ports_only)) (\<lambda>port_range.
         io_bind (time_now os) (\<lambda>start_time.
         io_bind (scan_ports py os ''127.0.0.1'' port_range common_ports_only) (\<lambda>open_ports.
         io_bind (time_now os) (\<lambda>end_time.
         io_bind (io_lift (total_scanned py port_range common_ports_only)) (\<lambda>total.
           io_return (JObj
             [(''success'', JBool True),
              (''action'', JStr ''scan''),
              (''open_ports'', JArr open_ports),
              (''scan_range'', port_range),
              (''total_scanned'', total),
              (''scan_time'', JFloat (bi_round_diff py end_time start_time)),
              (''common_ports_only'', common_ports_only)]))))))))) "

definition main_close :: "builtins \<Rightarrow> 'w os \<Rightarrow> json \<Rightarrow> (json, 'w) io" where
  \<comment> \<open>the branch \<^verbatim>\<open>action == "close"\<close> of \<^verbatim>\<open>main\<close>, up to the result dictionary\<close>
  "main_close py os data =
     io_bind (io_lift (py_contains ''port_to_close'' data)) (\<lambda>present.
       if \<not> present
       then io_raise (ValueError ''Missing required field for close action: port_to_close'')
       else
         io_bind (io_lift (py_getitem data ''port_to_close'')) (\<lambda>port_to_close.
         io_bind (close_port py os port_to_close) (\<lambda>(success, message).
           io_return (JObj
             [(''success'', JBool success),
              (''action'', JStr ''close''),
              (''port'', port_to_close),
              (''message'', JStr message)]))))"

definition main_try :: "builtins \<Rightarrow> 'w os \<Rightarrow> (unit, 'w) io" where
  \<comment> \<open>the \<^verbatim>\<open>try\<close> block of \<^verbatim>\<open>main\<close>\<close>
  "main_try py os =
     io_bind (stdin_read os) (\<lambda>raw.
       let input_data = py_strip raw in
       if input_data = [] then io_raise (ValueError ''No input data received'')
       else
         io_bind (io_lift (bi_loads py input_data)) (\<lambda>data.
         io_bind (io_lift (py_contains ''action'' data)) (\<lambda>present.
           if \<not> present then io_raise (ValueError ''Missing required field: action'')
           else
             io_bind (io_lift (py_getitem data ''action'')) (\<lambda>action.
             io_bind
               (if action = JStr ''scan'' then main_scan py os data
                else if action = JStr ''close'' then main_close py os data
                else io_raise (ValueError (''Invalid action: '' @ py_str py action
                       @ ''. Must be 'scan' or 'close'' @ [CHR 0x27])))
               print_json))))"

definition failure_result :: "builtins \<Rightarrow> exn \<Rightarrow> json" where
  \<comment> \<open>the \<^verbatim>\<open>error_result\<close> of the two handlers of \<^verbatim>\<open>main\<close>\<close>
  "failure_result py e =
     JObj [(''success'', JBool False),
       (''message'', JStr ((case e of JSONDecodeError m \<Rightarrow> ''Invalid JSON input: ''
                              | _ \<Rightarrow> ''Error: '') @ exn_str py e))]"

definition main :: "builtins \<Rightarrow> 'w os \<Rightarrow> 'w \<Rightarrow> int \<times> event list \<times> 'w" where
  \<comment> \<open>the exit code of the process, what it did, and the world it leaves: the
      \<^verbatim>\<open>try\<close> block, then either the normal end (exit code 0) or a handler, which
      prints the failure result and calls \<^verbatim>\<open>sys.exit(1)\<close>\<close>
  "main py os w =
     (case main_try py os w of
        (Inr u, evs, w1) \<Rightarrow> (0, evs, w1)
      | (Inl e, evs, w1) \<Rightarrow> (1, evs @ [EPrint (failure_result py e)], w1))"

section \<open>Reading the log of calls\<close>

fun probed_ports :: "event list \<Rightarrow> json list" where
  \<comment> \<open>the ports of the connection attempts, in order\<close>
  "probed_ports [] = []"
| "probed_ports (EConnect host port timeout r # evs) = port # probed_ports evs"
| "probed_ports (e # evs) = probed_ports evs"

fun found_open :: "event list \<Rightarrow> json list" where
  \<comment> \<open>the ports of the connection attempts that succeeded (error code 0), in order\<close>
  "found_open [] = []"
| "found_open (EConnect host port timeout r # evs) =
     (if r = Inr 0 then port # found_open evs else found_open evs)"
| "found_open (e # evs) = found_open evs"

fun printed :: "event list \<Rightarrow> json list" where
  \<comment> \<open>the lines written to standard output, in order\<close>
  "printed [] = []"
| "printed (EPrint v # evs) = v # printed evs"
| "printed (e # evs) = printed evs"

definition is_lookup :: "event \<Rightarrow> bool" where
  \<comment> \<open>a call of owner resolution: the listener table, \<^verbatim>\<open>lsof\<close> or \<^verbatim>\<open>ps\<close>\<close>
  "is_lookup e =
     (case e of
        ERun (Shell c) r \<Rightarrow> True
      | ERun (Argv a) r \<Rightarrow> (case a of x # xs \<Rightarrow> x = ''ps'' \<or> x = ''lsof'' | _ \<Rightarrow> False)
      | _ \<Rightarrow> False)"

definition is_graceful_kill :: "event \<Rightarrow> bool" where
  \<comment> \<open>\<^verbatim>\<open>SIGTERM\<close>, or \<^verbatim>\<open>taskkill /PID ...\<close>\<close>
  "is_graceful_kill e =
     (case e of
        EKill pid sg r \<Rightarrow> sg = SIGTERM
      | ERun (Argv a) r \<Rightarrow>
          (case a of x # y # zs \<Rightarrow> x = ''taskkill'' \<and> y = ''/PID'' | _ \<Rightarrow> False)
      | _ \<Rightarrow> False)"

definition is_forced_kill :: "event \<Rightarrow> bool" where
  \<comment> \<open>\<^verbatim>\<open>SIGKILL\<close>, or \<^verbatim>\<open>taskkill /F ...\<close>\<close>
  "is_forced_kill e =
     (case e of
        EKill pid sg r \<Rightarrow> sg = SIGKILL
      | ERun (Argv a) r \<Rightarrow>
          (case a of x # y # zs \<Rightarrow> x = ''taskkill'' \<and> y = ''/F'' | _ \<Rightarrow> False)
      | _ \<Rightarrow> False)"

definition kill_raised :: "exn \<Rightarrow> event \<Rightarrow> bool" where
  \<comment> \<open>a kill call, graceful or forced, that raised the exception \<open>x\<close>\<close>
  "kill_raised x e =
     ((is_graceful_kill e \<or> is_forced_kill e) \<and>
      (case e of EKill pid sg r \<Rightarrow> r = Inl x | ERun c r \<Rightarrow> r = Inl x | _ \<Rightarrow> False))"

definition probe_closed :: "json \<Rightarrow> event \<Rightarrow> bool" where
  \<comment> \<open>a connection attempt to the port on the loopback address that did not connect\<close>
  "probe_closed port e =
     (case e of
        EConnect host p timeout r \<Rightarrow> host = ''127.0.0.1'' \<and> p = port \<and> r \<noteq> Inr 0
      | _ \<Rightarrow> False)"






definition lsof_cmd :: "builtins \<Rightarrow> json \<Rightarrow> cmd" where
  "lsof_cmd py port = Argv [''lsof'', ''-i'', '':'' @ py_str py port, ''-t'']"



definition field :: "string \<Rightarrow> json \<Rightarrow> json option" where
  \<comment> \<open>a field of a printed JSON object\<close>
  "field k v = (case v of JObj kvs \<Rightarrow> map_of kvs k | _ \<Rightarrow> None)"

definition exit_code :: "int \<times> event list \<times> 'w \<Rightarrow> int" where
  "exit_code x = fst x"

definition failure_exit :: "int \<times> event list \<times> 'w \<Rightarrow> string \<Rightarrow> bool" where
  \<comment> \<open>the process wrote one object to standard output, the failure result with the
      message \<open>m\<close>, and ended with exit code 1\<close>
  "failure_exit x m =
     (exit_code x = 1
      \<and> printed (io_log x) = [JObj [(''success'', JBool False), (''message'', JStr m)]])"

section \<open>Requests\<close>

definition receives :: "builtins \<Rightarrow> 'w os \<Rightarrow> 'w \<Rightarrow> json \<Rightarrow> bool" where
  \<comment> \<open>standard input holds a non-blank text that \<^verbatim>\<open>json.loads\<close> reads as \<open>data\<close>\<close>
  "receives py os w data =
     (case fst (os_stdin os w) of
        Inl e \<Rightarrow> False
      | Inr raw \<Rightarrow> py_strip raw \<noteq> [] \<and> bi_loads py (py_strip raw) = Inr data)"

definition started :: "'w os \<Rightarrow> 'w \<Rightarrow> 'w" where
  \<comment> \<open>the world once standard input has been read\<close>
  "started os w = snd (os_stdin os w)"

definition has_action :: "json \<Rightarrow> string \<Rightarrow> bool" where
  "has_action data a =
     (py_contains ''action'' data = Inr True \<and> py_getitem data ''action'' = Inr (JStr a))"

definition close_request :: "json \<Rightarrow> json \<Rightarrow> bool" where
  \<comment> \<open>a request to close \<open>port\<close>\<close>
  "close_request data port =
     (has_action data ''close'' \<and> py_contains ''port_to_close'' data = Inr True
      \<and> py_getitem data ''port_to_close'' = Inr port)"

definition scan_request :: "json \<Rightarrow> int \<Rightarrow> int \<Rightarrow> json \<Rightarrow> bool" where
  \<comment> \<open>a request to scan the integer range from \<open>lo\<close> to \<open>hi\<close>, requested or defaulted,
      with the value \<open>common\<close> of \<^verbatim>\<open>common_ports_only\<close>, given or defaulted\<close>
  "scan_request data lo hi common =
     (has_action data ''scan''
      \<and> py_get data ''port_range'' (JArr [JInt 1, JInt 65535]) = Inr (JArr [JInt lo, JInt hi])
      \<and> py_get data ''common_ports_only'' (JBool False) = Inr common)"


section \<open>Example hosts\<close>

definition text_scan_default :: string where
  \<open>text_scan_default = ''{"action":"scan"}''\<close>

definition text_scan_common :: string where
  \<open>text_scan_common = ''{"action":"scan","common_ports_only":true}''\<close>

definition text_scan_8080 :: string where
  \<open>text_scan_8080 = ''{"action":"scan","port_range":[8079,8081],"common_ports_only":false}''\<close>

definition text_close_65534 :: string where
  \<open>text_close_65534 = ''{"action":"close","port_to_close":65534}''\<close>

definition text_close_8080 :: string where
  \<open>text_close_8080 = ''{"action":"close","port_to_close":8080}''\<close>

definition text_no_action :: string where
  \<open>text_no_action = ''{"port_range":[1,100]}''\<close>

definition text_open_action :: string where
  \<open>text_open_action = ''{"action":"open"}''\<close>

definition text_close_no_port :: string where
  \<open>text_close_no_port = ''{"action":"close"}''\<close>

definition text_scan_descending :: string where
  \<open>text_scan_descending = ''{"action":"scan","port_range":[9000,8000]}''\<close>

definition text_not_json :: string where
  \<open>text_not_json = ''not json''\<close>

definition example_loads :: "string \<Rightarrow> exn + json" where
  \<comment> \<open>what \<^verbatim>\<open>json.loads\<close> returns on the example request texts\<close>
  "example_loads s =
     (if s = text_scan_default then Inr (JObj [(''action'', JStr ''scan'')])
      else if s = text_scan_common
        then Inr (JObj [(''action'', JStr ''scan''), (''common_ports_only'', JBool True)])
      else if s = text_scan_8080
        then Inr (JObj [(''action'', JStr ''scan''),
               (''port_range'', JArr [JInt 8079, JInt 8081]),
               (''common_ports_only'', JBool False)])
      else if s = text_close_65534
        then Inr (JObj [(''action'', JStr ''close''), (''port_to_close'', JInt 65534)])
      else if s = text_close_8080
        then Inr (JObj [(''action'', JStr ''close''), (''port_to_close'', JInt 8080)])
      else if s = text_no_action
        then Inr (JObj [(''port_range'', JArr [JInt 1, JInt 100])])
      else if s = text_open_action then Inr (JObj [(''action'', JStr ''open'')])
      else if s = text_close_no_port then Inr (JObj [(''action'', JStr ''close'')])
      else if s = text_scan_descending
        then Inr (JObj [(''action'', JStr ''scan''),
               (''port_range'', JArr [JInt 9000, JInt 8000])])
      else Inl (JSONDecodeError ''Expecting value: line 1 column 1 (char 0)''))"

definition py_example :: builtins where
  \<comment> \<open>an interpreter for the examples below, which use integers only\<close>
  "py_example =
     \<lparr>bi_loads = example_loads,
      bi_int = (\<lambda>s. Inl (ValueError (''invalid literal for int() with base 10: ''
                 @ [CHR 0x27] @ s @ [CHR 0x27]))),
      bi_str = (\<lambda>v. ''...''),
      bi_exn_text = (\<lambda>e. []),
      bi_gt = (\<lambda>a b. Inl TypeError),
      bi_le = (\<lambda>a b. Inl TypeError),
      bi_sub = (\<lambda>a b. Inl TypeError),
      bi_add = (\<lambda>a b. Inl TypeError),
      bi_round_diff = (\<lambda>a b. 0)\<rparr>"

definition os_idle :: "string \<Rightarrow> unit os" where
  \<comment> \<open>a Unix host with nothing listening: every connection is refused (error code
      111), \<^verbatim>\<open>grep\<close>, \<^verbatim>\<open>lsof\<close> and \<^verbatim>\<open>ps\<close> find nothing (return code 1), no process
      to signal; \<open>input\<close> is the text on standard input\<close>
  "os_idle input =
     \<lparr>os_nt = False,
      os_stdin = (\<lambda>w. (Inr input, w)),
      os_connect = (\<lambda>w host port timeout. (Inr 111, w)),
      os_run = (\<lambda>w c. (Inr (1, []), w)),
      os_kill = (\<lambda>w pid sg. (Inl ProcessLookupError, w)),
      os_sleep = (\<lambda>w n. w),
      os_time = (\<lambda>w. (0, w))\<rparr>"

definition os_owner :: "string \<Rightarrow> bool \<Rightarrow> exn + unit \<Rightarrow> nat \<Rightarrow> nat os" where
  \<comment> \<open>a Unix host where process 4242 (\<^verbatim>\<open>node server.js\<close>) listens on port 8080 and
      nothing else listens.  The world counts the signals sent; the port stays open
      until \<open>need\<close> signals were sent.  The listener table shows nothing; with
      \<open>tools\<close>, \<^verbatim>\<open>lsof\<close> and \<^verbatim>\<open>ps\<close> know the process, without they fail.  Every
      \<^verbatim>\<open>os.kill\<close> answers \<open>answer\<close>\<close>
  "os_owner input tools answer need =
     \<lparr>os_nt = False,
      os_stdin = (\<lambda>w. (Inr input, w)),
      os_connect = (\<lambda>w host port timeout.
        (if port = JInt 8080 \<and> w < need then Inr 0 else Inr 111, w)),
      os_run = (\<lambda>w c.
        (if \<not> tools then Inr (1, [])
         else if c = Argv [''lsof'', ''-i'', '':8080'', ''-t''] then Inr (0, ''4242'' @ [CHR 0x0A])
         else if c = ps_comm ''4242'' then Inr (0, ''node'' @ [CHR 0x0A])
         else if c = ps_args ''4242'' then Inr (0, ''node server.js'' @ [CHR 0x0A])
         else Inr (1, []), w)),
      os_kill = (\<lambda>w pid sg. (answer, Suc w)),
      os_sleep = (\<lambda>w n. w),
      os_time = (\<lambda>w. (0, w))\<rparr>"



section \<open>Lemmas: owner resolution and the termination protocol\<close>

lemma scan_port_eq:
  "scan_port os host port t w =
     (Inr (fst (os_connect os w host port t) = Inr 0),
      [EConnect host port t (fst (os_connect os w host port t))],
      snd (os_connect os w host port t))"
  by (simp add: scan_port_def io_try_def io_bind_def connect_ex_def io_return_def
      split: prod.splits sum.splits)

lemma log_return: "list_all P (io_log (io_return x w))"
  by (simp add: io_return_def io_log_def)

lemma log_raise: "list_all P (io_log (io_raise e w))"
  by (simp add: io_raise_def io_log_def)

lemma log_lift: "list_all P (io_log (io_lift r w))"
  by (simp add: io_lift_def io_log_def)

lemma log_bind:
  assumes "\<And>w. list_all P (io_log (m w))" and "\<And>x w. list_all P (io_log (f x w))"
  shows "list_all P (io_log (io_bind m f w))"
proof (cases "m w")
  case (fields r evs w1)
  show ?thesis
  proof (cases r)
    case (Inl e)
    with fields assms(1) [of w] show ?thesis by (simp add: io_bind_def io_log_def)
  next
    case (Inr x)
    with fields assms(1) [of w] assms(2) [of x w1] show ?thesis
      by (auto simp add: io_bind_def io_log_def split: prod.splits)
  qed
qed

lemma log_try:
  assumes "\<And>w. list_all P (io_log (m w))" and "\<And>e w. list_all P (io_log (h e w))"
  shows "list_all P (io_log (io_try m h w))"
proof (cases "m w")
  case (fields r evs w1)
  show ?thesis
  proof (cases r)
    case (Inr x)
    with fields assms(1) [of w] show ?thesis by (simp add: io_try_def io_log_def)
  next
    case (Inl e)
    with fields assms(1) [of w] assms(2) [of e w1] show ?thesis
      by (auto simp add: io_try_def io_log_def split: prod.splits)
  qed
qed

lemma total_try:
  assumes "\<And>e w. \<exists>r. io_res (h e w) = Inr r"
  shows "\<exists>r. io_res (io_try m h w) = Inr r"
proof (cases "m w")
  case (fields r evs w1)
  show ?thesis
  proof (cases r)
    case (Inr x)
    with fields show ?thesis by (simp add: io_try_def io_res_def)
  next
    case (Inl e)
    with fields assms [of e w1] show ?thesis
      by (auto simp add: io_try_def io_res_def split: prod.splits)
  qed
qed

lemma total_return: "\<exists>r. io_res (io_return x w) = Inr r"
  by (simp add: io_return_def io_res_def)

lemma log_run_lookup:
  "is_lookup (ERun c (fst (os_run os w c))) \<Longrightarrow> list_all is_lookup (io_log (subprocess_run os c chk w))"
  by (auto simp add: subprocess_run_def io_log_def split: prod.splits)

lemma is_lookup_simps:
  "is_lookup (ERun (Shell s) r)" "is_lookup (ERun (ps_comm pid) r)" "is_lookup (ERun (ps_args pid) r)"
  "is_lookup (ERun (Argv (''lsof'' # a)) r)"
  by (simp_all add: is_lookup_def ps_comm_def ps_args_def)


lemma listener_details_log:
  "list_all is_lookup (io_log (listener_details os pid n w))"
  unfolding listener_details_def Let_def
  by (auto intro!: log_try log_bind log_return log_run_lookup is_lookup_simps)


lemma lsof_lookup_log:
  "list_all is_lookup (io_log (lsof_lookup py os port w))"
  unfolding lsof_lookup_def Let_def
  by (auto intro!: log_try log_bind log_return log_run_lookup is_lookup_simps)

lemma get_process_info_total:
  "\<exists>i. io_res (get_process_info py os port w) = Inr i"
  unfolding get_process_info_def
  by (auto intro!: total_try total_return)

lemma get_process_info_log:
  "list_all is_lookup (io_log (get_process_info py os port w))"
  unfolding get_process_info_def
  by (auto intro!: log_try log_bind log_return log_run_lookup is_lookup_simps
      listener_details_log lsof_lookup_log split: option.splits)

lemma not_forced_simps:
  "\<not> is_forced_kill (ESleep n)" "\<not> is_forced_kill (EConnect h p t r)"
  "\<not> is_graceful_kill (ESleep n)" "\<not> is_graceful_kill (EConnect h p t r)"
  "\<not> kill_raised x (ESleep n)" "\<not> kill_raised x (EConnect h p t r)"
  by (simp_all add: is_forced_kill_def is_graceful_kill_def kill_raised_def)

lemma lookup_not_kill:
  "is_lookup e \<Longrightarrow> \<not> is_forced_kill e \<and> \<not> is_graceful_kill e \<and> \<not> kill_raised x e"
  by (auto simp add: is_lookup_def is_forced_kill_def is_graceful_kill_def kill_raised_def
      split: event.splits cmd.splits list.splits)

lemma graceful_kill_cases:
  "\<exists>g r w1. graceful_kill os pid w = (r, [g], w1) \<and> is_graceful_kill g \<and> \<not> is_forced_kill g \<and>
     (case r of Inl x \<Rightarrow> (\<forall>y. kill_raised y g \<longrightarrow> y = x) \<and> (kill_raised x g \<or> x = CalledProcessError)
      | Inr u \<Rightarrow> (\<forall>y. \<not> kill_raised y g))"
  by (auto simp add: graceful_kill_def kill_def subprocess_run_def io_bind_def io_return_def
      is_graceful_kill_def is_forced_kill_def kill_raised_def
      split: prod.splits sum.splits if_splits)

lemma forced_kill_cases:
  "\<exists>f r w1. forced_kill os pid w = (r, [f], w1) \<and> is_forced_kill f \<and>
     (case r of Inl x \<Rightarrow> (\<forall>y. kill_raised y f \<longrightarrow> y = x) \<and> (kill_raised x f \<or> x = CalledProcessError)
      | Inr u \<Rightarrow> (\<forall>y. \<not> kill_raised y f))"
  by (auto simp add: forced_kill_def kill_def subprocess_run_def io_bind_def io_return_def
      is_graceful_kill_def is_forced_kill_def kill_raised_def
      split: prod.splits sum.splits if_splits)

lemma terminate_owner_total:
  "\<exists>r. io_res (terminate_owner py os port name pid w) = Inr r"
  unfolding terminate_owner_def
  by (rule total_try) (simp add: io_return_def io_res_def)


lemma terminate_owner_cases:
  fixes py :: builtins and os :: "'w os" and port name pid w
  defines "t \<equiv> terminate_owner py os port name pid w"
    and "open1 \<equiv> EConnect ''127.0.0.1'' port default_timeout (Inr 0)"
  obtains
    (graceful_raised) g x where
      "io_log t = [g]" "io_res t = Inr (terminate_failed py port x)"
      "is_graceful_kill g" "\<not> is_forced_kill g"
      "\<forall>y. kill_raised y g \<longrightarrow> y = x" "kill_raised x g \<or> x = CalledProcessError"
  | (closed_after_graceful) g c where
      "io_log t = [g, ESleep 1, c]"
      "io_res t = Inr (True, ''Successfully closed port '' @ py_str py port
                 @ '' (terminated '' @ name @ '', PID: '' @ show_int pid @ '')'')"
      "is_graceful_kill g" "\<not> is_forced_kill g" "\<forall>y. \<not> kill_raised y g" "probe_closed port c"
  | (forced_raised) g f x where
      "io_log t = [g, ESleep 1, open1, f]" "io_res t = Inr (terminate_failed py port x)"
      "is_graceful_kill g" "\<not> is_forced_kill g" "\<forall>y. \<not> kill_raised y g" "is_forced_kill f"
      "\<forall>y. kill_raised y f \<longrightarrow> y = x" "kill_raised x f \<or> x = CalledProcessError"
  | (closed_after_forced) g f c where
      "io_log t = [g, ESleep 1, open1, f, ESleep 1, c]"
      "io_res t = Inr (True, ''Successfully closed port '' @ py_str py port
                     @ '' (force killed '' @ name @ '', PID: '' @ show_int pid @ '')'')"
      "is_graceful_kill g" "\<not> is_forced_kill g" "\<forall>y. \<not> kill_raised y g" "is_forced_kill f"
      "\<forall>y. \<not> kill_raised y f" "probe_closed port c"
  | (still_open) g f where
      "io_log t = [g, ESleep 1, open1, f, ESleep 1, open1]"
      "io_res t = Inr (False, ''Failed to close port '' @ py_str py port
                     @ '' - process may be protected'')"
      "is_graceful_kill g" "\<not> is_forced_kill g" "\<forall>y. \<not> kill_raised y g" "is_forced_kill f"
      "\<forall>y. \<not> kill_raised y f"
proof -
  obtain g r1 w1 where g: "graceful_kill os pid w = (r1, [g], w1)"
    and gk: "is_graceful_kill g" "\<not> is_forced_kill g"
    and gr: "case r1 of Inl x \<Rightarrow> (\<forall>y. kill_raised y g \<longrightarrow> y = x) \<and> (kill_raised x g \<or> x = CalledProcessError)
       | Inr u \<Rightarrow> (\<forall>y. \<not> kill_raised y g)"
    using graceful_kill_cases [of os pid w] by blast
  show ?thesis
  proof (cases r1)
    case (Inl x)
    with g gr have "io_log t = [g]" "io_res t = Inr (terminate_failed py port x)"
      "\<forall>y. kill_raised y g \<longrightarrow> y = x" "kill_raised x g \<or> x = CalledProcessError"
      by (simp_all add: t_def terminate_owner_def io_try_def io_bind_def io_return_def io_log_def
          io_res_def)
    with gk show ?thesis by (rule_tac that(1))
  next
    case (Inr u)
    with gr have nr: "\<forall>y. \<not> kill_raised y g" by simp
    define w2 where "w2 = os_sleep os w1 1"
    define c1 where "c1 = fst (os_connect os w2 ''127.0.0.1'' port default_timeout)"
    define w3 where "w3 = snd (os_connect os w2 ''127.0.0.1'' port default_timeout)"
    have sp: "scan_port os ''127.0.0.1'' port default_timeout w2
      = (Inr (c1 = Inr 0), [EConnect ''127.0.0.1'' port default_timeout c1], w3)"
      by (simp add: scan_port_eq c1_def w3_def)
    show ?thesis
    proof (cases "c1 = Inr 0")
      case False
      with g Inr sp have "io_log t = [g, ESleep 1, EConnect ''127.0.0.1'' port default_timeout c1]"
        "io_res t = Inr (True, ''Successfully closed port '' @ py_str py port
                 @ '' (terminated '' @ name @ '', PID: '' @ show_int pid @ '')'')"
        by (simp_all add: t_def terminate_owner_def io_try_def io_bind_def io_return_def io_log_def
            io_res_def sleep_def w2_def)
      moreover from False have "probe_closed port (EConnect ''127.0.0.1'' port default_timeout c1)"
        by (simp add: probe_closed_def)
      ultimately show ?thesis using gk nr by (rule_tac that(2))
    next
      case True
      obtain f r2 w4 where f: "forced_kill os pid w3 = (r2, [f], w4)"
        and fk: "is_forced_kill f"
        and fr: "case r2 of Inl x \<Rightarrow> (\<forall>y. kill_raised y f \<longrightarrow> y = x) \<and> (kill_raised x f \<or> x = CalledProcessError)
           | Inr u \<Rightarrow> (\<forall>y. \<not> kill_raised y f)"
        using forced_kill_cases [of os pid w3] by blast
      show ?thesis
      proof (cases r2)
        case (Inl x)
        with g \<open>r1 = Inr u\<close> sp True f have "io_log t = [g, ESleep 1, open1, f]"
          "io_res t = Inr (terminate_failed py port x)"
          by (simp_all add: t_def open1_def terminate_owner_def io_try_def io_bind_def io_return_def
              io_log_def io_res_def sleep_def w2_def)
        moreover from Inl fr have "\<forall>y. kill_raised y f \<longrightarrow> y = x"
          "kill_raised x f \<or> x = CalledProcessError" by simp_all
        ultimately show ?thesis using gk nr fk by (rule_tac that(3))
      next
        case (Inr u2)
        with fr have nr2: "\<forall>y. \<not> kill_raised y f" by simp
        define w5 where "w5 = os_sleep os w4 1"
        define c2 where "c2 = fst (os_connect os w5 ''127.0.0.1'' port default_timeout)"
        define w6 where "w6 = snd (os_connect os w5 ''127.0.0.1'' port default_timeout)"
        have sp2: "scan_port os ''127.0.0.1'' port default_timeout w5
          = (Inr (c2 = Inr 0), [EConnect ''127.0.0.1'' port default_timeout c2], w6)"
          by (simp add: scan_port_eq c2_def w6_def)
        show ?thesis
        proof (cases "c2 = Inr 0")
          case False
          with g \<open>r1 = Inr u\<close> sp True f Inr sp2
          have "io_log t = [g, ESleep 1, open1, f, ESleep 1,
                 EConnect ''127.0.0.1'' port default_timeout c2]"
            "io_res t = Inr (True, ''Successfully closed port '' @ py_str py port
                     @ '' (force killed '' @ name @ '', PID: '' @ show_int pid @ '')'')"
            by (simp_all add: t_def open1_def terminate_owner_def io_try_def io_bind_def
                io_return_def io_log_def io_res_def sleep_def w2_def w5_def)
          moreover from False
          have "probe_closed port (EConnect ''127.0.0.1'' port default_timeout c2)"
            by (simp add: probe_closed_def)
          ultimately show ?thesis using gk nr fk nr2 by (rule_tac that(4))
        next
          case c2: True
          with g \<open>r1 = Inr u\<close> sp True f Inr sp2
          have "io_log t = [g, ESleep 1, open1, f, ESleep 1, open1]"
            "io_res t = Inr (False, ''Failed to close port '' @ py_str py port
                     @ '' - process may be protected'')"
            by (simp_all add: t_def open1_def terminate_owner_def io_try_def io_bind_def
                io_return_def io_log_def io_res_def sleep_def w2_def w5_def)
          then show ?thesis using gk nr fk nr2 by (rule_tac that(5))
        qed
      qed
    qed
  qed
qed

lemma close_port_total:
  "\<exists>r. io_res (close_port py os port w) = Inr r"
  unfolding close_port_def
  by (rule total_try) (auto simp add: io_return_def io_res_def)

lemma close_port_unresolved:
  assumes "io_res (get_process_info py os port w) = Inr None"
  shows "close_port py os port w =
     (Inr (False, ''No process found using port '' @ py_str py port),
      io_log (get_process_info py os port w), io_world (get_process_info py os port w))"
  using assms
  by (cases "get_process_info py os port w")
     (simp add: close_port_def io_try_def io_bind_def io_return_def io_res_def io_log_def
        io_world_def)

lemma close_port_bad_pid:
  assumes "io_res (get_process_info py os port w) = Inr (Some info)"
    and "py_int py (process_id info) = Inl e"
  shows "close_port py os port w =
     (Inr (False, ''Error closing port '' @ py_str py port @ '': '' @ exn_str py e),
      io_log (get_process_info py os port w), io_world (get_process_info py os port w))"
  using assms
  by (cases "get_process_info py os port w")
     (simp add: close_port_def io_try_def io_bind_def io_return_def io_res_def io_log_def
        io_world_def io_lift_def)

lemma close_port_resolved:
  assumes "io_res (get_process_info py os port w) = Inr (Some info)"
    and "py_int py (process_id info) = Inr pid"
  shows "io_res (close_port py os port w) =
       io_res (terminate_owner py os port (process_name info) pid
                (io_world (get_process_info py os port w)))"
    and "io_log (close_port py os port w) =
       io_log (get_process_info py os port w) @
       io_log (terminate_owner py os port (process_name info) pid
                (io_world (get_process_info py os port w)))"
proof -
  obtain evs w1 where g: "get_process_info py os port w = (Inr (Some info), evs, w1)"
    using assms(1) by (cases "get_process_info py os port w") (simp add: io_res_def)
  obtain r where t: "io_res (terminate_owner py os port (process_name info) pid w1) = Inr r"
    using terminate_owner_total [of py os port "process_name info" pid w1] by auto
  then obtain evs2 w2 where t2:
    "terminate_owner py os port (process_name info) pid w1 = (Inr r, evs2, w2)"
    by (cases "terminate_owner py os port (process_name info) pid w1") (simp add: io_res_def)
  from g t2 assms(2) show "io_res (close_port py os port w) =
       io_res (terminate_owner py os port (process_name info) pid
                (io_world (get_process_info py os port w)))"
    by (simp add: close_port_def io_try_def io_bind_def io_return_def io_res_def io_log_def
        io_world_def io_lift_def)
  from g t2 assms(2) show "io_log (close_port py os port w) =
       io_log (get_process_info py os port w) @
       io_log (terminate_owner py os port (process_name info) pid
                (io_world (get_process_info py os port w)))"
    by (simp add: close_port_def io_try_def io_bind_def io_return_def io_res_def io_log_def
        io_world_def io_lift_def)
qed


lemma probe_closed_not_kill:
  "probe_closed port c \<Longrightarrow> \<not> is_forced_kill c \<and> \<not> is_graceful_kill c \<and> \<not> kill_raised x c"
  by (auto simp add: probe_closed_def is_forced_kill_def is_graceful_kill_def kill_raised_def
      split: event.splits)





lemma terminate_owner_raised:
  assumes "e \<in> set (io_log (terminate_owner py os port name pid w))"
    and "kill_raised x e"
  shows "io_res (terminate_owner py os port name pid w) = Inr (terminate_failed py port x)"
proof (cases rule: terminate_owner_cases [of py os port name pid w])
  case (graceful_raised g y)
  from assms(1) graceful_raised(1) have "e = g" by simp
  with assms(2) graceful_raised(5) have "x = y" by blast
  with graceful_raised(2) show ?thesis by simp
next
  case (closed_after_graceful g c)
  from assms(1) closed_after_graceful(1) have "e = g \<or> e = ESleep 1 \<or> e = c" by simp
  with assms(2) closed_after_graceful(5) probe_closed_not_kill [OF closed_after_graceful(6), of x]
    not_forced_simps(5) [of x 1]
  show ?thesis by blast
next
  case (forced_raised g f y)
  from assms(1) forced_raised(1)
  have "e = g \<or> e = ESleep 1 \<or> e = EConnect ''127.0.0.1'' port default_timeout (Inr 0) \<or> e = f"
    by simp
  with assms(2) forced_raised(5) not_forced_simps(5) [of x 1]
    not_forced_simps(6) [of x "''127.0.0.1''" port default_timeout "Inr 0"]
  have "e = f" by blast
  with assms(2) forced_raised(7) have "x = y" by blast
  with forced_raised(2) show ?thesis by simp
next
  case (closed_after_forced g f c)
  from assms(1) closed_after_forced(1)
  have "e = g \<or> e = ESleep 1 \<or> e = EConnect ''127.0.0.1'' port default_timeout (Inr 0) \<or> e = f
    \<or> e = c" by auto
  with assms(2) closed_after_forced(5,7) not_forced_simps(5) [of x 1]
    not_forced_simps(6) [of x "''127.0.0.1''" port default_timeout "Inr 0"]
    probe_closed_not_kill [OF closed_after_forced(8), of x]
  show ?thesis by blast
next
  case (still_open g f)
  from assms(1) still_open(1)
  have "e = g \<or> e = ESleep 1 \<or> e = EConnect ''127.0.0.1'' port default_timeout (Inr 0) \<or> e = f"
    by auto
  with assms(2) still_open(5,7) not_forced_simps(5) [of x 1]
    not_forced_simps(6) [of x "''127.0.0.1''" port default_timeout "Inr 0"]
  show ?thesis by blast
qed

lemma close_port_cases:
  obtains
    (unresolved) "io_res (get_process_info py os port w) = Inr None"
  | (bad_pid) info e where "io_res (get_process_info py os port w) = Inr (Some info)"
      "py_int py (process_id info) = Inl e"
  | (resolved) info pid where "io_res (get_process_info py os port w) = Inr (Some info)"
      "py_int py (process_id info) = Inr pid"
proof -
  obtain i where i: "io_res (get_process_info py os port w) = Inr i"
    using get_process_info_total [of py os port w] by auto
  show ?thesis
  proof (cases i)
    case None
    with i show ?thesis by (rule_tac that(1)) simp
  next
    case (Some info)
    show ?thesis
    proof (cases "py_int py (process_id info)")
      case (Inl e)
      with i Some show ?thesis by (rule_tac that(2)) simp_all
    next
      case (Inr pid)
      with i Some show ?thesis by (rule_tac that(3)) simp_all
    qed
  qed
qed

lemma lookup_log_no_kill:
  "e \<in> set (io_log (get_process_info py os port w)) \<Longrightarrow>
     \<not> is_forced_kill e \<and> \<not> is_graceful_kill e \<and> \<not> kill_raised x e"
  using get_process_info_log [of py os port w] lookup_not_kill [of e x]
  by (simp add: list_all_iff)



lemma close_port_raised:
  assumes "e \<in> set (io_log (close_port py os port w))" and "kill_raised x e"
  shows "io_res (close_port py os port w) = Inr (terminate_failed py port x)"
proof (cases rule: close_port_cases [of py os port w])
  case unresolved
  from close_port_unresolved [OF this] assms(1)
  have "e \<in> set (io_log (get_process_info py os port w))" by (simp add: io_log_def)
  with lookup_log_no_kill [of e py os port w] assms(2) show ?thesis by simp
next
  case (bad_pid info y)
  from close_port_bad_pid [OF this] assms(1)
  have "e \<in> set (io_log (get_process_info py os port w))" by (simp add: io_log_def)
  with lookup_log_no_kill [of e py os port w] assms(2) show ?thesis by simp
next
  case (resolved info pid)
  from close_port_resolved(2) [OF resolved] assms(1)
  have "e \<in> set (io_log (get_process_info py os port w)) \<or>
    e \<in> set (io_log (terminate_owner py os port (process_name info) pid
                (io_world (get_process_info py os port w))))" by simp
  with lookup_log_no_kill [of e py os port w x] assms(2)
  have "e \<in> set (io_log (terminate_owner py os port (process_name info) pid
                (io_world (get_process_info py os port w))))" by blast
  from terminate_owner_raised [OF this assms(2)] close_port_resolved(1) [OF resolved]
  show ?thesis by simp
qed

lemma main_close_eq:
  assumes "receives py os w data" and "close_request data port"
    and "io_res (close_port py os port (started os w)) = Inr (ok, msg)"
  shows "main py os w =
     (0, ERead (fst (os_stdin os w)) # io_log (close_port py os port (started os w))
         @ [EPrint (JObj [(''success'', JBool ok), (''action'', JStr ''close''),
              (''port'', port), (''message'', JStr msg)])],
      io_world (close_port py os port (started os w)))"
proof -
  obtain raw w1 where r: "os_stdin os w = (Inr raw, w1)" "py_strip raw \<noteq> []"
    "bi_loads py (py_strip raw) = Inr data"
    using assms(1) by (cases "os_stdin os w") (auto simp add: receives_def split: sum.splits)
  obtain evs w2 where c: "close_port py os port w1 = (Inr (ok, msg), evs, w2)"
    using assms(3) r(1) by (cases "close_port py os port w1") (simp add: io_res_def started_def)
  from assms(2) r c show ?thesis
    by (simp add: main_def main_try_def main_close_def close_request_def has_action_def
        stdin_read_def io_bind_def io_lift_def io_raise_def io_return_def print_json_def
        io_log_def io_world_def started_def)
qed



lemmas io_defs = io_try_def io_bind_def io_return_def io_raise_def io_lift_def io_res_def
  io_log_def io_world_def subprocess_run_def kill_def sleep_def stdin_read_def time_now_def
  print_json_def connect_ex_def

lemmas lookup_defs = get_process_info_def lsof_lookup_def listener_details_def ps_comm_def
  ps_args_def py_strip_def py_isspace_def show_int_def split_pid_info_def Let_def

lemma printed_append: "printed (xs @ ys) = printed xs @ printed ys"
  by (induction xs rule: printed.induct) simp_all

lemma probed_ports_append: "probed_ports (xs @ ys) = probed_ports xs @ probed_ports ys"
  by (induction xs rule: probed_ports.induct) simp_all

lemma found_open_append: "found_open (xs @ ys) = found_open xs @ found_open ys"
  by (induction xs rule: found_open.induct) simp_all

lemma lookups_silent:
  "list_all is_lookup evs \<Longrightarrow> printed evs = [] \<and> probed_ports evs = [] \<and> found_open evs = []"
  by (induction evs) (auto simp add: is_lookup_def split: event.splits)

lemma kill_event_silent:
  "is_graceful_kill e \<or> is_forced_kill e \<Longrightarrow> printed [e] = []"
  by (auto simp add: is_graceful_kill_def is_forced_kill_def split: event.splits)

lemma probe_closed_silent: "probe_closed port c \<Longrightarrow> printed [c] = []"
  by (auto simp add: probe_closed_def split: event.splits)

lemma terminate_owner_silent:
  "printed (io_log (terminate_owner py os port name pid w)) = []"
proof (cases rule: terminate_owner_cases [of py os port name pid w])
  case (graceful_raised g x)
  with kill_event_silent [of g] show ?thesis by simp
next
  case (closed_after_graceful g c)
  with kill_event_silent [of g] probe_closed_silent [of port c]
    printed_append [of "[g]" "[ESleep 1, c]"] printed_append [of "[ESleep 1]" "[c]"]
  show ?thesis by simp
next
  case (forced_raised g f x)
  with kill_event_silent [of g] kill_event_silent [of f]
    printed_append [of "[g]" "[ESleep 1, EConnect ''127.0.0.1'' port default_timeout (Inr 0), f]"]
    printed_append [of "[ESleep 1, EConnect ''127.0.0.1'' port default_timeout (Inr 0)]" "[f]"]
  show ?thesis by simp
next
  case (closed_after_forced g f c)
  with kill_event_silent [of g] kill_event_silent [of f] probe_closed_silent [of port c]
    printed_append [of "[g]"
      "[ESleep 1, EConnect ''127.0.0.1'' port default_timeout (Inr 0), f, ESleep 1, c]"]
    printed_append [of "[ESleep 1, EConnect ''127.0.0.1'' port default_timeout (Inr 0)]"
      "[f, ESleep 1, c]"]
    printed_append [of "[f]" "[ESleep 1, c]"] printed_append [of "[ESleep 1]" "[c]"]
  show ?thesis by simp
next
  case (still_open g f)
  with kill_event_silent [of g] kill_event_silent [of f]
    printed_append [of "[g]"
      "[ESleep 1, EConnect ''127.0.0.1'' port default_timeout (Inr 0), f, ESleep 1,
        EConnect ''127.0.0.1'' port default_timeout (Inr 0)]"]
    printed_append [of "[ESleep 1, EConnect ''127.0.0.1'' port default_timeout (Inr 0)]"
      "[f, ESleep 1, EConnect ''127.0.0.1'' port default_timeout (Inr 0)]"]
    printed_append [of "[f]" "[ESleep 1, EConnect ''127.0.0.1'' port default_timeout (Inr 0)]"]
  show ?thesis by simp
qed

lemma close_port_silent: "printed (io_log (close_port py os port w)) = []"
proof (cases rule: close_port_cases [of py os port w])
  case unresolved
  from close_port_unresolved [OF this] lookups_silent [OF get_process_info_log [of py os port w]]
  show ?thesis by (simp add: io_log_def)
next
  case (bad_pid info x)
  from close_port_bad_pid [OF this] lookups_silent [OF get_process_info_log [of py os port w]]
  show ?thesis by (simp add: io_log_def)
next
  case (resolved info pid)
  from close_port_resolved(2) [OF resolved]
    lookups_silent [OF get_process_info_log [of py os port w]]
    terminate_owner_silent [of py os port "process_name info" pid]
  show ?thesis by (simp add: printed_append)
qed

lemma main_close_printed:
  assumes "receives py os w data" and "close_request data port"
    and "io_res (close_port py os port (started os w)) = Inr (ok, msg)"
  shows "exit_code (main py os w) = 0"
    and "printed (io_log (main py os w)) =
      [JObj [(''success'', JBool ok), (''action'', JStr ''close''),
              (''port'', port), (''message'', JStr msg)]]"
  using main_close_eq [OF assms] close_port_silent [of py os port "started os w"]
  by (simp_all add: exit_code_def io_log_def printed_append)

lemmas example_defs = os_idle_def os_owner_def py_example_def example_loads_def
  text_scan_default_def text_scan_common_def text_scan_8080_def text_close_65534_def
  text_close_8080_def text_no_action_def text_open_action_def text_close_no_port_def
  text_scan_descending_def text_not_json_def receives_def started_def close_request_def scan_request_def
  has_action_def py_contains_def py_getitem_def py_get_def

lemmas close_defs = close_port_def terminate_owner_def terminate_failed_def graceful_kill_def
  forced_kill_def scan_port_def py_int_def digit_value_def default_timeout_def

lemma common_in_range_int:
  "common_in_range py (JArr [JInt lo, JInt hi]) ps = Inr [p \<leftarrow> ps. lo \<le> p \<and> p \<le> hi]"
  by (induction ps) (simp_all add: ex_bind_def py_index_def py_le_def)

lemma ports_to_scan_int:
  "ports_to_scan py (JArr [JInt lo, JInt hi]) common
     = Inr (if py_truthy common then [p \<leftarrow> COMMON_PORTS. lo \<le> p \<and> p \<le> hi] else [lo..hi])"
  by (simp add: ports_to_scan_def common_in_range_int ex_bind_def py_index_def py_add_int_def
      py_range_def)

lemma invalid_port_range_int:
  "invalid_port_range py (JArr [JInt lo, JInt hi]) = Inr (lo > hi)"
  by (simp add: invalid_port_range_def ex_bind_def py_len_def py_index_def py_gt_def)

lemma limit_range_int:
  "limit_range py (JArr [JInt lo, JInt hi]) common
     = Inr (JArr [JInt lo,
         JInt (if hi - lo > 10000 \<and> \<not> py_truthy common then lo + 10000 else hi)])"
  by (simp add: limit_range_def ex_bind_def py_index_def py_sub_def py_gt_def py_add_int_def
      py_setitem_def)

lemma total_scanned_int:
  "total_scanned py (JArr [JInt lo, JInt hi]) common
     = Inr (JInt (if py_truthy common
                  then int (length [p \<leftarrow> COMMON_PORTS. lo \<le> p \<and> p \<le> hi])
                  else min (hi - lo + 1) 10001))"
  by (simp add: total_scanned_def common_in_range_int ex_bind_def py_index_def py_sub_def
      py_add_int_def py_min_int_def py_gt_def min_def)

lemma scan_ports_body_eq:
  fixes os :: "'w os"
  defines "c \<equiv> \<lambda>os host p (w :: 'w). fst (os_connect os w host (JInt p) default_timeout)"
    and "w1 \<equiv> \<lambda>os host p (w :: 'w). snd (os_connect os w host (JInt p) default_timeout)"
  shows "scan_ports_body py os host p acc w =
     (if c os host p w = Inr 0
      then (Inr (acc @ [port_info p (case io_res (get_process_info py os (JInt p) (w1 os host p w))
                                      of Inr i \<Rightarrow> i | Inl e \<Rightarrow> None)]),
            EConnect host (JInt p) default_timeout (c os host p w)
              # io_log (get_process_info py os (JInt p) (w1 os host p w)),
            io_world (get_process_info py os (JInt p) (w1 os host p w)))
      else (Inr acc, [EConnect host (JInt p) default_timeout (c os host p w)], w1 os host p w))"
proof -
  obtain i where "io_res (get_process_info py os (JInt p) (w1 os host p w)) = Inr i"
    using get_process_info_total [of py os "JInt p" "w1 os host p w"] by auto
  then show ?thesis
    by (cases "get_process_info py os (JInt p) (w1 os host p w)")
       (simp add: scan_ports_body_def scan_port_eq io_bind_def io_return_def io_res_def
          io_log_def io_world_def c_def w1_def)
qed

lemma field_port_info:
  "field ''port'' (port_info p info) = Some (JInt p)"
  "field ''protocol'' (port_info p info) = Some (JStr ''tcp'')"
  by (simp_all add: field_def port_info_def)

lemma scan_ports_loop_facts:
  "\<exists>new. io_res (scan_ports_loop py os host ports acc w) = Inr (acc @ new)
     \<and> probed_ports (io_log (scan_ports_loop py os host ports acc w)) = map JInt ports
     \<and> map (field ''port'') new
         = map Some (found_open (io_log (scan_ports_loop py os host ports acc w)))
     \<and> printed (io_log (scan_ports_loop py os host ports acc w)) = []
     \<and> (\<forall>r \<in> set new. \<exists>p info. p \<in> set ports \<and> r = port_info p info)"
proof (induction ports arbitrary: acc w)
  case Nil
  show ?case by (simp add: io_res_def io_log_def)
next
  case (Cons p ps)
  define c where "c = fst (os_connect os w host (JInt p) default_timeout)"
  define w1 where "w1 = snd (os_connect os w host (JInt p) default_timeout)"
  define g where "g = get_process_info py os (JInt p) w1"
  define info where "info = (case io_res g of Inr i \<Rightarrow> i | Inl e \<Rightarrow> None)"
  have silent: "printed (io_log g) = []" "probed_ports (io_log g) = []" "found_open (io_log g) = []"
    using lookups_silent [OF get_process_info_log [of py os "JInt p" w1]] by (simp_all add: g_def)
  show ?case
  proof (cases "c = Inr 0")
    case True
    then have b: "scan_ports_body py os host p acc w
        = (Inr (acc @ [port_info p info]),
           EConnect host (JInt p) default_timeout (Inr 0) # io_log g, io_world g)"
      using scan_ports_body_eq [of py os host p acc w]
      by (simp add: c_def w1_def g_def info_def)
    from Cons.IH [of "acc @ [port_info p info]" "io_world g"] obtain new where n:
      "io_res (scan_ports_loop py os host ps (acc @ [port_info p info]) (io_world g))
         = Inr ((acc @ [port_info p info]) @ new)"
      "probed_ports (io_log (scan_ports_loop py os host ps (acc @ [port_info p info]) (io_world g)))
         = map JInt ps"
      "map (field ''port'') new = map Some (found_open
         (io_log (scan_ports_loop py os host ps (acc @ [port_info p info]) (io_world g))))"
      "printed (io_log (scan_ports_loop py os host ps (acc @ [port_info p info]) (io_world g))) = []"
      "\<forall>r \<in> set new. \<exists>q info. q \<in> set ps \<and> r = port_info q info"
      by blast
    let ?rest = "scan_ports_loop py os host ps (acc @ [port_info p info]) (io_world g)"
    have l: "io_log (scan_ports_loop py os host (p # ps) acc w)
        = (EConnect host (JInt p) default_timeout (Inr 0) # io_log g) @ io_log ?rest"
      and r: "io_res (scan_ports_loop py os host (p # ps) acc w) = io_res ?rest"
      using b by (simp_all add: io_log_def io_res_def split: prod.splits)
    have "io_res (scan_ports_loop py os host (p # ps) acc w) = Inr (acc @ (port_info p info # new))"
      using r n(1) by simp
    moreover have "probed_ports (io_log (scan_ports_loop py os host (p # ps) acc w))
        = map JInt (p # ps)"
      using l n(2) silent by (simp add: probed_ports_append)
    moreover have "map (field ''port'') (port_info p info # new)
        = map Some (found_open (io_log (scan_ports_loop py os host (p # ps) acc w)))"
      using l n(3) silent by (simp add: found_open_append field_port_info)
    moreover have "printed (io_log (scan_ports_loop py os host (p # ps) acc w)) = []"
      using l n(4) silent by (simp add: printed_append)
    moreover have "\<forall>r \<in> set (port_info p info # new).
        \<exists>q info. q \<in> set (p # ps) \<and> r = port_info q info"
      using n(5) by (simp, blast)
    ultimately show ?thesis by blast
  next
    case False
    then have b: "scan_ports_body py os host p acc w
        = (Inr acc, [EConnect host (JInt p) default_timeout c], w1)"
      using scan_ports_body_eq [of py os host p acc w] by (simp add: c_def w1_def)
    from Cons.IH [of acc w1] obtain new where n:
      "io_res (scan_ports_loop py os host ps acc w1) = Inr (acc @ new)"
      "probed_ports (io_log (scan_ports_loop py os host ps acc w1)) = map JInt ps"
      "map (field ''port'') new
         = map Some (found_open (io_log (scan_ports_loop py os host ps acc w1)))"
      "printed (io_log (scan_ports_loop py os host ps acc w1)) = []"
      "\<forall>r \<in> set new. \<exists>q info. q \<in> set ps \<and> r = port_info q info"
      by blast
    let ?rest = "scan_ports_loop py os host ps acc w1"
    have l: "io_log (scan_ports_loop py os host (p # ps) acc w)
        = [EConnect host (JInt p) default_timeout c] @ io_log ?rest"
      and r: "io_res (scan_ports_loop py os host (p # ps) acc w) = io_res ?rest"
      using b by (simp_all add: io_log_def io_res_def split: prod.splits)
    have "io_res (scan_ports_loop py os host (p # ps) acc w) = Inr (acc @ new)"
      using r n(1) by simp
    moreover have "probed_ports (io_log (scan_ports_loop py os host (p # ps) acc w))
        = map JInt (p # ps)"
      using l n(2) by simp
    moreover have "map (field ''port'') new
        = map Some (found_open (io_log (scan_ports_loop py os host (p # ps) acc w)))"
      using l n(3) False by simp
    moreover have "printed (io_log (scan_ports_loop py os host (p # ps) acc w)) = []"
      using l n(4) by simp
    moreover have "\<forall>r \<in> set new. \<exists>q info. q \<in> set (p # ps) \<and> r = port_info q info"
      using n(5) by (simp, blast)
    ultimately show ?thesis by blast
  qed
qed

lemma scan_ports_int:
  "scan_ports py os host (JArr [JInt lo, JInt hi]) common w
     = scan_ports_loop py os host
         (if py_truthy common then [p \<leftarrow> COMMON_PORTS. lo \<le> p \<and> p \<le> hi] else [lo..hi]) [] w"
  by (cases "scan_ports_loop py os host
         (if py_truthy common then [p \<leftarrow> COMMON_PORTS. lo \<le> p \<and> p \<le> hi] else [lo..hi]) [] w")
     (simp add: scan_ports_def ports_to_scan_int io_bind_def io_lift_def del: upto.simps)

lemma main_scan_request:
  fixes os :: "'w os"
  assumes "receives py os w data" and "scan_request data lo hi common" and "lo \<le> hi"
  defines "upper \<equiv> (if hi - lo > 10000 \<and> \<not> py_truthy common then lo + 10000 else hi)"
  defines "planned \<equiv>
    (if py_truthy common then [p \<leftarrow> COMMON_PORTS. lo \<le> p \<and> p \<le> hi] else [lo..upper])"
  shows "\<exists>recs t0 t1.
      exit_code (main py os w) = 0
    \<and> probed_ports (io_log (main py os w)) = map JInt planned
    \<and> printed (io_log (main py os w))
       = [JObj [(''success'', JBool True), (''action'', JStr ''scan''),
            (''open_ports'', JArr recs), (''scan_range'', JArr [JInt lo, JInt upper]),
            (''total_scanned'', JInt (int (length planned))),
            (''scan_time'', JFloat (bi_round_diff py t1 t0)),
            (''common_ports_only'', common)]]
    \<and> map (field ''port'') recs = map Some (found_open (io_log (main py os w)))
    \<and> (\<forall>r \<in> set recs. \<exists>p info. p \<in> set planned \<and> r = port_info p info)"
proof -
  obtain raw w1 where r: "os_stdin os w = (Inr raw, w1)" "py_strip raw \<noteq> []"
    "bi_loads py (py_strip raw) = Inr data"
    using assms(1) by (cases "os_stdin os w") (auto simp add: receives_def split: sum.splits)
  obtain t0 w2 where t0: "os_time os w1 = (t0, w2)" by (cases "os_time os w1")
  have up: "lo \<le> upper" using assms(3) by (simp add: upper_def)
  have planned2: "planned
      = (if py_truthy common then [p \<leftarrow> COMMON_PORTS. lo \<le> p \<and> p \<le> upper] else [lo..upper])"
    by (simp add: planned_def upper_def)
  let ?s = "scan_ports_loop py os ''127.0.0.1'' planned [] w2"
  obtain recs where s:
    "io_res ?s = Inr recs" "probed_ports (io_log ?s) = map JInt planned"
    "map (field ''port'') recs = map Some (found_open (io_log ?s))"
    "printed (io_log ?s) = []"
    "\<forall>r \<in> set recs. \<exists>p info. p \<in> set planned \<and> r = port_info p info"
    using scan_ports_loop_facts [of py os "''127.0.0.1''" planned "[]" w2] by auto
  obtain evs w3 where s2: "?s = (Inr recs, evs, w3)"
    using s(1) by (cases ?s) (simp add: io_res_def)
  have sp: "scan_ports py os ''127.0.0.1'' (JArr [JInt lo, JInt upper]) common w2
      = (Inr recs, evs, w3)"
    using scan_ports_int [of py os "''127.0.0.1''" lo upper common w2] s2 planned2 by simp
  obtain t1 w4 where t1: "os_time os w3 = (t1, w4)" by (cases "os_time os w3")
  have total: "total_scanned py (JArr [JInt lo, JInt upper]) common = Inr (JInt (int (length planned)))"
    using up by (auto simp add: total_scanned_int planned2 upper_def min_def)
  have m: "main py os w =
     (0, ERead (Inr raw) # ETime t0 # evs @ [ETime t1,
        EPrint (JObj [(''success'', JBool True), (''action'', JStr ''scan''),
            (''open_ports'', JArr recs), (''scan_range'', JArr [JInt lo, JInt upper]),
            (''total_scanned'', JInt (int (length planned))),
            (''scan_time'', JFloat (bi_round_diff py t1 t0)),
            (''common_ports_only'', common)])], w4)"
    using assms(2,3) r t0 t1 sp total
    by (simp add: main_def main_try_def main_scan_def scan_request_def has_action_def
        stdin_read_def time_now_def print_json_def io_bind_def io_lift_def io_raise_def
        io_return_def invalid_port_range_int limit_range_int upper_def)
  have e: "io_log ?s = evs" using s2 by (simp add: io_log_def)
  from m s e have "exit_code (main py os w) = 0"
    "probed_ports (io_log (main py os w)) = map JInt planned"
    "printed (io_log (main py os w))
       = [JObj [(''success'', JBool True), (''action'', JStr ''scan''),
            (''open_ports'', JArr recs), (''scan_range'', JArr [JInt lo, JInt upper]),
            (''total_scanned'', JInt (int (length planned))),
            (''scan_time'', JFloat (bi_round_diff py t1 t0)),
            (''common_ports_only'', common)]]"
    "map (field ''port'') recs = map Some (found_open (io_log (main py os w)))"
    by (simp_all add: exit_code_def io_log_def probed_ports_append printed_append
        found_open_append)
  with s(5) show ?thesis by blast
qed

lemma printed_quiet:
  "list_all (\<lambda>e. printed [e] = []) evs \<Longrightarrow> printed evs = []"
proof (induction evs)
  case Nil
  show ?case by simp
next
  case (Cons e evs)
  with printed_append [of "[e]" evs] show ?case by simp
qed

lemma quiet_printed:
  "printed evs = [] \<Longrightarrow> list_all (\<lambda>e. printed [e] = []) evs"
proof (induction evs)
  case Nil
  show ?case by simp
next
  case (Cons e evs)
  with printed_append [of "[e]" evs] show ?case by simp
qed

lemma time_now_quiet: "list_all (\<lambda>e. printed [e] = []) (io_log (time_now os w))"
  by (simp add: time_now_def io_log_def split: prod.splits)

lemma scan_ports_quiet:
  "list_all (\<lambda>e. printed [e] = []) (io_log (scan_ports py os host port_range common w))"
proof -
  have "list_all (\<lambda>e. printed [e] = []) (io_log (scan_ports_loop py os host ports [] w2))"
    for ports w2
    using scan_ports_loop_facts [of py os host ports "[]" w2] quiet_printed by blast
  then show ?thesis
    unfolding scan_ports_def by (intro log_bind log_lift)
qed

lemma close_port_quiet:
  "list_all (\<lambda>e. printed [e] = []) (io_log (close_port py os port w))"
  using close_port_silent [of py os port w] by (rule quiet_printed)

lemma main_scan_silent: "printed (io_log (main_scan py os data w)) = []"
proof -
  have "list_all (\<lambda>e. printed [e] = []) (io_log (main_scan py os data w))"
    unfolding main_scan_def
    by (intro log_bind log_lift time_now_quiet scan_ports_quiet)
       (auto intro!: log_raise log_bind log_lift log_return time_now_quiet scan_ports_quiet)
  then show ?thesis by (rule printed_quiet)
qed

lemma main_close_silent: "printed (io_log (main_close py os data w)) = []"
proof -
  have "list_all (\<lambda>e. printed [e] = []) (io_log (main_close py os data w))"
    unfolding main_close_def
    by (intro log_bind log_lift)
       (auto intro!: log_raise log_bind log_lift log_return close_port_quiet)
  then show ?thesis by (rule printed_quiet)
qed

lemma main_try_eq:
  "main_try py os w =
     (case os_stdin os w of
        (Inl e, w1) \<Rightarrow> (Inl e, [ERead (Inl e)], w1)
      | (Inr raw, w1) \<Rightarrow>
          if py_strip raw = []
          then (Inl (ValueError ''No input data received''), [ERead (Inr raw)], w1)
          else
            (case bi_loads py (py_strip raw) of
               Inl e \<Rightarrow> (Inl e, [ERead (Inr raw)], w1)
             | Inr data \<Rightarrow>
                 (case py_contains ''action'' data of
                    Inl e \<Rightarrow> (Inl e, [ERead (Inr raw)], w1)
                  | Inr present \<Rightarrow>
                      if \<not> present
                      then (Inl (ValueError ''Missing required field: action''),
                            [ERead (Inr raw)], w1)
                      else
                        (case py_getitem data ''action'' of
                           Inl e \<Rightarrow> (Inl e, [ERead (Inr raw)], w1)
                         | Inr action \<Rightarrow>
                             (case io_bind
                                (if action = JStr ''scan'' then main_scan py os data
                                 else if action = JStr ''close'' then main_close py os data
                                 else io_raise (ValueError (''Invalid action: ''
                                        @ py_str py action
                                        @ ''. Must be 'scan' or 'close'' @ [CHR 0x27])))
                                print_json w1 of
                                (r, evs, w2) \<Rightarrow> (r, ERead (Inr raw) # evs, w2))))))"
  by (simp add: main_try_def stdin_read_def io_bind_def io_lift_def io_raise_def Let_def
      split: prod.splits sum.splits)

lemma print_after_silent:
  assumes "printed (io_log (m w)) = []"
  shows "(\<exists>v. io_res (io_bind m print_json w) = Inr ()
            \<and> printed (io_log (io_bind m print_json w)) = [v])
       \<or> (\<exists>e. io_res (io_bind m print_json w) = Inl e
            \<and> printed (io_log (io_bind m print_json w)) = [])"
proof (cases "m w")
  case (fields r evs w1)
  with assms have s: "printed evs = []" by (simp add: io_log_def)
  show ?thesis
  proof (cases r)
    case (Inl e)
    with fields s show ?thesis by (simp add: io_bind_def io_res_def io_log_def)
  next
    case (Inr v)
    with fields s show ?thesis
      by (simp add: io_bind_def io_res_def io_log_def print_json_def printed_append)
  qed
qed

lemma dispatch_silent:
  "printed (io_log ((if action = JStr ''scan'' then main_scan py os data
                     else if action = JStr ''close'' then main_close py os data
                     else io_raise e) w)) = []"
  using main_scan_silent [of py os data w] main_close_silent [of py os data w]
  by (simp add: io_raise_def io_log_def)

lemma main_try_prints_once:
  "(\<exists>v. io_res (main_try py os w) = Inr () \<and> printed (io_log (main_try py os w)) = [v])
   \<or> (\<exists>e. io_res (main_try py os w) = Inl e \<and> printed (io_log (main_try py os w)) = [])"
proof (cases "os_stdin os w")
  case (Pair r w1)
  show ?thesis
  proof (cases r)
    case (Inl e)
    with Pair show ?thesis by (simp add: main_try_eq io_res_def io_log_def)
  next
    case raw: (Inr raw)
    show ?thesis
    proof (cases "py_strip raw = []")
      case True
      with Pair raw show ?thesis by (simp add: main_try_eq io_res_def io_log_def)
    next
      case ne: False
      show ?thesis
      proof (cases "bi_loads py (py_strip raw)")
        case (Inl e)
        with Pair raw ne show ?thesis by (simp add: main_try_eq io_res_def io_log_def)
      next
        case data: (Inr data)
        show ?thesis
        proof (cases "py_contains ''action'' data")
          case (Inl e)
          with Pair raw ne data show ?thesis by (simp add: main_try_eq io_res_def io_log_def)
        next
          case present: (Inr present)
          show ?thesis
          proof (cases present)
            case False
            with Pair raw ne data present show ?thesis
              by (simp add: main_try_eq io_res_def io_log_def)
          next
            case True
            show ?thesis
            proof (cases "py_getitem data ''action''")
              case (Inl e)
              with Pair raw ne data present True show ?thesis
                by (simp add: main_try_eq io_res_def io_log_def)
            next
              case (Inr action)
              let ?b = "(if action = JStr ''scan'' then main_scan py os data
                         else if action = JStr ''close'' then main_close py os data
                         else io_raise (ValueError (''Invalid action: '' @ py_str py action
                                @ ''. Must be 'scan' or 'close'' @ [CHR 0x27])))"
              from print_after_silent [of ?b w1, OF dispatch_silent]
              have p: "(\<exists>v. io_res (io_bind ?b print_json w1) = Inr ()
                    \<and> printed (io_log (io_bind ?b print_json w1)) = [v])
                 \<or> (\<exists>e. io_res (io_bind ?b print_json w1) = Inl e
                    \<and> printed (io_log (io_bind ?b print_json w1)) = [])" .
              have m: "io_res (main_try py os w) = io_res (io_bind ?b print_json w1)"
                "printed (io_log (main_try py os w)) = printed (io_log (io_bind ?b print_json w1))"
                using Pair raw ne data present True Inr
                by (simp_all add: main_try_eq io_res_def io_log_def split: prod.splits)
              from p show ?thesis unfolding m .
            qed
          qed
        qed
      qed
    qed
  qed
qed

lemma main_outcome:
  "(io_res (main_try py os w) = Inr () \<and> exit_code (main py os w) = 0
      \<and> (\<exists>v. printed (io_log (main py os w)) = [v]))
   \<or> (\<exists>e. io_res (main_try py os w) = Inl e \<and> exit_code (main py os w) = 1
      \<and> printed (io_log (main py os w)) = [failure_result py e])"
proof -
  from main_try_prints_once [of py os w] show ?thesis
  proof
    assume "\<exists>v. io_res (main_try py os w) = Inr ()
      \<and> printed (io_log (main_try py os w)) = [v]"
    then obtain v where "io_res (main_try py os w) = Inr ()"
      "printed (io_log (main_try py os w)) = [v]" by blast
    then show ?thesis
      by (cases "main_try py os w") (simp add: main_def io_res_def io_log_def exit_code_def)
  next
    assume "\<exists>e. io_res (main_try py os w) = Inl e
      \<and> printed (io_log (main_try py os w)) = []"
    then obtain e where "io_res (main_try py os w) = Inl e"
      "printed (io_log (main_try py os w)) = []" by blast
    then show ?thesis
      by (cases "main_try py os w")
         (simp add: main_def io_res_def io_log_def exit_code_def printed_append)
  qed
qed

lemma main_raises:
  assumes "io_res (main_try py os w) = Inl e"
  shows "exit_code (main py os w) = 1"
    and "printed (io_log (main py os w)) = [failure_result py e]"
  using main_outcome [of py os w] assms by auto

lemma receives_read:
  assumes "receives py os w data"
  obtains raw w1 where "os_stdin os w = (Inr raw, w1)" "py_strip raw \<noteq> []"
    "bi_loads py (py_strip raw) = Inr data"
  using assms by (cases "os_stdin os w") (auto simp add: receives_def split: sum.splits)

lemma failure_exitI:
  assumes "io_res (main_try py os w) = Inl e"
    and "(case e of JSONDecodeError x \<Rightarrow> ''Invalid JSON input: '' | _ \<Rightarrow> ''Error: '')
         @ exn_str py e = m"
  shows "failure_exit (main py os w) m"
  using main_raises [OF assms(1)] assms(2) by (simp add: failure_exit_def failure_result_def)








lemma descending_range:
  assumes "receives py os w data" and "has_action data ''scan''"
    and "py_get data ''port_range'' (JArr [JInt 1, JInt 65535]) = Inr (JArr [JInt lo, JInt hi])"
    and "hi < lo"
  shows "failure_exit (main py os w) ''Error: Invalid port_range: must be [start_port, end_port]''"
proof -
  from assms(1) obtain raw w1 where r: "os_stdin os w = (Inr raw, w1)" "py_strip raw \<noteq> []"
    "bi_loads py (py_strip raw) = Inr data" by (rule receives_read)
  from assms(3) obtain kvs where d: "data = JObj kvs"
    by (cases data) (simp_all add: py_get_def)
  then obtain c where c: "py_get data ''common_ports_only'' (JBool False) = Inr c"
    by (cases "map_of kvs ''common_ports_only''") (simp_all add: py_get_def)
  have "io_res (main_try py os w)
      = Inl (ValueError ''Invalid port_range: must be [start_port, end_port]'')"
    using r assms(2-4) c
    by (simp add: main_try_eq io_res_def io_bind_def io_raise_def io_lift_def main_scan_def
        has_action_def invalid_port_range_int)
  then show ?thesis by (rule failure_exitI) (simp add: exn_str_def)
qed





lemma lsof_lookup_eq:
  "lsof_lookup py os port w =
     (case os_run os w (lsof_cmd py port) of
        (Inl e, w1) \<Rightarrow> (Inr None, [ERun (lsof_cmd py port) (Inl e)], w1)
      | (Inr (rc, out), w1) \<Rightarrow>
          if rc = 0 \<and> py_strip out \<noteq> []
          then
            (case os_run os w1
                (ps_comm (case py_split (CHR 0x0A) (py_strip out) of [] \<Rightarrow> [] | l # ls \<Rightarrow> l)) of
               (Inl e, w2) \<Rightarrow>
                 (Inr None,
                  [ERun (lsof_cmd py port) (Inr (rc, out)),
                   ERun (ps_comm (case py_split (CHR 0x0A) (py_strip out) of
                                    [] \<Rightarrow> [] | l # ls \<Rightarrow> l)) (Inl e)], w2)
             | (Inr (rc1, out1), w2) \<Rightarrow>
                 (case os_run os w2
                    (ps_args (case py_split (CHR 0x0A) (py_strip out) of
                                [] \<Rightarrow> [] | l # ls \<Rightarrow> l)) of
                    (r2, w3) \<Rightarrow>
                      ((case r2 of
                          Inl e \<Rightarrow> Inr None
                        | Inr (rc2, out2) \<Rightarrow>
                            Inr (Some
                              \<lparr>process_id = (case py_split (CHR 0x0A) (py_strip out) of
                                               [] \<Rightarrow> [] | l # ls \<Rightarrow> l),
                               process_name = (if rc1 = 0 then py_strip out1 else ''unknown''),
                               process_command =
                                 (if rc2 = 0 then py_strip out2 else ''unknown'')\<rparr>)),
                       [ERun (lsof_cmd py port) (Inr (rc, out)),
                        ERun (ps_comm (case py_split (CHR 0x0A) (py_strip out) of
                                         [] \<Rightarrow> [] | l # ls \<Rightarrow> l)) (Inr (rc1, out1)),
                        ERun (ps_args (case py_split (CHR 0x0A) (py_strip out) of
                                         [] \<Rightarrow> [] | l # ls \<Rightarrow> l)) r2], w3)))
          else (Inr None, [ERun (lsof_cmd py port) (Inr (rc, out))], w1))"
  by (simp add: lsof_lookup_def lsof_cmd_def io_try_def io_bind_def io_return_def
      subprocess_run_def Let_def split: prod.splits sum.splits)

lemma lsof_lookup_cases:
  fixes py :: builtins and os :: "'w os" and port w
  defines "t \<equiv> lsof_lookup py os port w"
  obtains
    (raised) e where "io_res t = Inr None" "io_log t = [ERun (lsof_cmd py port) (Inl e)]"
  | (nothing) rc out where "\<not> (rc = 0 \<and> py_strip out \<noteq> [])" "io_res t = Inr None"
      "io_log t = [ERun (lsof_cmd py port) (Inr (rc, out))]"
  | (comm_raised) out pid e where "py_strip out \<noteq> []"
      "pid = (case py_split (CHR 0x0A) (py_strip out) of [] \<Rightarrow> [] | l # ls \<Rightarrow> l)"
      "io_res t = Inr None"
      "io_log t = [ERun (lsof_cmd py port) (Inr (0, out)), ERun (ps_comm pid) (Inl e)]"
  | (args_raised) out pid rc1 out1 e where "py_strip out \<noteq> []"
      "pid = (case py_split (CHR 0x0A) (py_strip out) of [] \<Rightarrow> [] | l # ls \<Rightarrow> l)"
      "io_res t = Inr None"
      "io_log t = [ERun (lsof_cmd py port) (Inr (0, out)), ERun (ps_comm pid) (Inr (rc1, out1)),
                   ERun (ps_args pid) (Inl e)]"
  | (found) out pid rc1 out1 rc2 out2 where "py_strip out \<noteq> []"
      "pid = (case py_split (CHR 0x0A) (py_strip out) of [] \<Rightarrow> [] | l # ls \<Rightarrow> l)"
      "io_res t = Inr (Some \<lparr>process_id = pid,
                         process_name = (if rc1 = 0 then py_strip out1 else ''unknown''),
                         process_command = (if rc2 = 0 then py_strip out2 else ''unknown'')\<rparr>)"
      "io_log t = [ERun (lsof_cmd py port) (Inr (0, out)), ERun (ps_comm pid) (Inr (rc1, out1)),
                   ERun (ps_args pid) (Inr (rc2, out2))]"
proof -
  obtain r w1 where a: "os_run os w (lsof_cmd py port) = (r, w1)"
    by (cases "os_run os w (lsof_cmd py port)")
  show ?thesis
  proof (cases r)
    case (Inl e)
    with a have "io_res t = Inr None" "io_log t = [ERun (lsof_cmd py port) (Inl e)]"
      by (simp_all add: t_def lsof_lookup_eq io_res_def io_log_def)
    then show ?thesis by (rule raised)
  next
    case (Inr x)
    obtain rc out where x: "x = (rc, out)" by (cases x)
    show ?thesis
    proof (cases "rc = 0 \<and> py_strip out \<noteq> []")
      case False
      with a Inr x have "io_res t = Inr None"
        "io_log t = [ERun (lsof_cmd py port) (Inr (rc, out))]"
        by (auto simp add: t_def lsof_lookup_eq io_res_def io_log_def)
      with False show ?thesis by (rule nothing)
    next
      case True
      define pid where "pid = (case py_split (CHR 0x0A) (py_strip out) of [] \<Rightarrow> [] | l # ls \<Rightarrow> l)"
      from True have ne: "py_strip out \<noteq> []" and rc: "rc = 0" by simp_all
      obtain r1 w2 where b: "os_run os w1 (ps_comm pid) = (r1, w2)"
        by (cases "os_run os w1 (ps_comm pid)")
      show ?thesis
      proof (cases r1)
        case (Inl e)
        with a Inr x True b have "io_res t = Inr None"
          "io_log t = [ERun (lsof_cmd py port) (Inr (0, out)), ERun (ps_comm pid) (Inl e)]"
          by (simp_all add: t_def lsof_lookup_eq io_res_def io_log_def pid_def [symmetric])
        with ne pid_def show ?thesis by (rule comm_raised)
      next
        case y: (Inr y)
        obtain rc1 out1 where y2: "y = (rc1, out1)" by (cases y)
        obtain r2 w3 where c: "os_run os w2 (ps_args pid) = (r2, w3)"
          by (cases "os_run os w2 (ps_args pid)")
        show ?thesis
        proof (cases r2)
          case (Inl e)
          with a Inr x True b y y2 c have "io_res t = Inr None"
            "io_log t = [ERun (lsof_cmd py port) (Inr (0, out)),
                   ERun (ps_comm pid) (Inr (rc1, out1)), ERun (ps_args pid) (Inl e)]"
            by (simp_all add: t_def lsof_lookup_eq io_res_def io_log_def pid_def [symmetric])
          with ne pid_def show ?thesis by (rule args_raised)
        next
          case z: (Inr z)
          obtain rc2 out2 where z2: "z = (rc2, out2)" by (cases z)
          with a Inr x True b y y2 c z have
            "io_res t = Inr (Some \<lparr>process_id = pid,
                         process_name = (if rc1 = 0 then py_strip out1 else ''unknown''),
                         process_command = (if rc2 = 0 then py_strip out2 else ''unknown'')\<rparr>)"
            "io_log t = [ERun (lsof_cmd py port) (Inr (0, out)),
                   ERun (ps_comm pid) (Inr (rc1, out1)), ERun (ps_args pid) (Inr (rc2, out2))]"
            by (simp_all add: t_def lsof_lookup_eq io_res_def io_log_def pid_def [symmetric])
          with ne pid_def show ?thesis by (rule found)
        qed
      qed
    qed
  qed
qed



lemma lsof_lookup_starts:
  "\<exists>r evs. io_log (lsof_lookup py os port w) = ERun (lsof_cmd py port) r # evs"
  by (cases rule: lsof_lookup_cases [of py os port w]) simp_all









lemma terminate_failed_denied:
  assumes "terminate_failed py port x
     = (b, ''Permission denied - cannot terminate process using port '' @ py_str py port)"
  shows "x = PermissionError"
  using assms by (cases x) (simp_all add: terminate_failed_def)

lemma terminate_owner_denied:
  assumes "io_res (terminate_owner py os port name pid w)
     = Inr (b, ''Permission denied - cannot terminate process using port '' @ py_str py port)"
  shows "\<exists>e \<in> set (io_log (terminate_owner py os port name pid w)).
           kill_raised PermissionError e"
proof (cases rule: terminate_owner_cases [of py os port name pid w])
  case (graceful_raised g x)
  from assms graceful_raised(2) have "x = PermissionError"
    by (simp add: terminate_failed_denied)
  with graceful_raised(6) have "kill_raised PermissionError g" by simp
  with graceful_raised(1) show ?thesis by simp
next
  case (closed_after_graceful g c)
  with assms show ?thesis by simp
next
  case (forced_raised g f x)
  from assms forced_raised(2) have "x = PermissionError"
    by (simp add: terminate_failed_denied)
  with forced_raised(8) have "kill_raised PermissionError f" by simp
  with forced_raised(1) show ?thesis by simp
next
  case (closed_after_forced g f c)
  with assms show ?thesis by simp
next
  case (still_open g f)
  with assms show ?thesis by simp
qed

lemma close_port_denied:
  assumes "io_res (close_port py os port w)
     = Inr (b, ''Permission denied - cannot terminate process using port '' @ py_str py port)"
  shows "\<exists>e \<in> set (io_log (close_port py os port w)). kill_raised PermissionError e"
proof (cases rule: close_port_cases [of py os port w])
  case unresolved
  from close_port_unresolved [OF this] assms show ?thesis by (simp add: io_res_def)
next
  case (bad_pid info x)
  from close_port_bad_pid [OF this] assms show ?thesis by (simp add: io_res_def)
next
  case (resolved info pid)
  let ?T = "terminate_owner py os port (process_name info) pid
                (io_world (get_process_info py os port w))"
  from close_port_resolved(1) [OF resolved] assms
  have "io_res ?T
     = Inr (b, ''Permission denied - cannot terminate process using port '' @ py_str py port)"
    by simp
  from terminate_owner_denied [OF this] close_port_resolved(2) [OF resolved]
  show ?thesis by auto
qed















section \<open>Claims\<close>

text \<open>
  Claim C7.  For every host, port and timeout, \<^verbatim>\<open>scan_port\<close> returns a boolean and never
  raises: it makes one connection attempt and returns true exactly when
  \<^verbatim>\<open>connect_ex\<close> reports that the connection was established (error code 0).  Every
  other error code (refused, timed out, unreachable, not permitted) and every exception
  raised while the socket is created, configured or connected gives false.
\<close>

theorem scan_port_boolean:
  "io_res (scan_port os host port timeout w)
     = Inr (fst (os_connect os w host port timeout) = Inr 0)
   \<and> io_log (scan_port os host port timeout w)
     = [EConnect host port timeout (fst (os_connect os w host port timeout))]"
  by (simp add: scan_port_eq io_res_def io_log_def)

theorem scan_port_boolean_witness:
  "io_res (scan_port (os_idle []) ''127.0.0.1'' (JInt 8080) default_timeout ()) = Inr False
   \<and> io_res (scan_port (os_owner [] True (Inr ()) 1) ''127.0.0.1'' (JInt 8080) default_timeout 0)
       = Inr True"
  using scan_port_boolean [of "os_idle []" "''127.0.0.1''" "JInt 8080" default_timeout "()"]
    scan_port_boolean [of "os_owner [] True (Inr ()) 1" "''127.0.0.1''" "JInt 8080"
      default_timeout 0]
  by (simp add: os_idle_def os_owner_def)

text \<open>
  Claim C4.  For every close request on a port for which \<^verbatim>\<open>get_process_info\<close> finds no
  process, \<^verbatim>\<open>close_port\<close> returns failure with the message
  \<^verbatim>\<open>No process found using port {port}\<close>, and the program prints exactly the response
  \<^verbatim>\<open>{"success": false, "action": "close", "port": port, "message": ...}\<close> and ends
  normally (exit code 0).  The witness is the request for port 65534 on a host where
  nothing listens.
\<close>

theorem close_unowned_port:
  assumes "receives py os w data" and "close_request data port"
    and "io_res (get_process_info py os port (started os w)) = Inr None"
  shows "io_res (close_port py os port (started os w))
       = Inr (False, ''No process found using port '' @ py_str py port)
     \<and> exit_code (main py os w) = 0
     \<and> printed (io_log (main py os w))
       = [JObj [(''success'', JBool False), (''action'', JStr ''close''), (''port'', port),
           (''message'', JStr (''No process found using port '' @ py_str py port))]]"
proof -
  from close_port_unresolved [OF assms(3)]
  have r: "io_res (close_port py os port (started os w))
       = Inr (False, ''No process found using port '' @ py_str py port)"
    by (simp add: io_res_def)
  from r main_close_printed [OF assms(1,2) r] show ?thesis by simp
qed

theorem close_unowned_port_witness:
  "receives py_example (os_idle text_close_65534) ()
     (JObj [(''action'', JStr ''close''), (''port_to_close'', JInt 65534)])
   \<and> close_request (JObj [(''action'', JStr ''close''), (''port_to_close'', JInt 65534)])
       (JInt 65534)
   \<and> io_res (get_process_info py_example (os_idle text_close_65534) (JInt 65534)
       (started (os_idle text_close_65534) ())) = Inr None
   \<and> exit_code (main py_example (os_idle text_close_65534) ()) = 0
   \<and> printed (io_log (main py_example (os_idle text_close_65534) ()))
       = [JObj [(''success'', JBool False), (''action'', JStr ''close''), (''port'', JInt 65534),
           (''message'', JStr ''No process found using port 65534'')]]"
proof -
  have a: "receives py_example (os_idle text_close_65534) ()
     (JObj [(''action'', JStr ''close''), (''port_to_close'', JInt 65534)])"
    by (simp add: example_defs py_strip_def py_isspace_def)
  have b: "close_request (JObj [(''action'', JStr ''close''), (''port_to_close'', JInt 65534)])
       (JInt 65534)"
    by (simp add: example_defs)
  have c: "io_res (get_process_info py_example (os_idle text_close_65534) (JInt 65534)
       (started (os_idle text_close_65534) ())) = Inr None"
    by (simp add: io_defs lookup_defs os_idle_def started_def)
  from a b c close_unowned_port [OF a b c] show ?thesis by (simp add: show_int_def)
qed

text \<open>
  Claim C5.  For every close operation in which a kill call, graceful or forced, raises
  \<^verbatim>\<open>ProcessLookupError\<close>, \<^verbatim>\<open>close_port\<close> returns success with the message
  \<^verbatim>\<open>Process using port {port} was already terminated\<close>.
\<close>

theorem vanished_process_is_success:
  assumes "e \<in> set (io_log (close_port py os port w))"
    and "kill_raised ProcessLookupError e"
  shows "io_res (close_port py os port w)
    = Inr (True, ''Process using port '' @ py_str py port @ '' was already terminated'')"
  using close_port_raised [OF assms] by (simp add: terminate_failed_def)

lemma close_vanished_example:
  "close_port py_example (os_owner text_close_8080 True (Inl ProcessLookupError) 1) (JInt 8080) 0
   = (Inr (True, ''Process using port 8080 was already terminated''),
      [ERun (Shell ''netstat -tlnp 2>/dev/null | grep :8080'') (Inr (1, [])),
       ERun (Argv [''lsof'', ''-i'', '':8080'', ''-t'']) (Inr (0, ''4242'' @ [CHR 0x0A])),
       ERun (ps_comm ''4242'') (Inr (0, ''node'' @ [CHR 0x0A])),
       ERun (ps_args ''4242'') (Inr (0, ''node server.js'' @ [CHR 0x0A])),
       EKill 4242 SIGTERM (Inl ProcessLookupError)], 1)"
  by (simp add: io_defs lookup_defs close_defs os_owner_def)

theorem vanished_process_is_success_witness:
  "EKill 4242 SIGTERM (Inl ProcessLookupError)
     \<in> set (io_log (close_port py_example
         (os_owner text_close_8080 True (Inl ProcessLookupError) 1) (JInt 8080) 0))
   \<and> kill_raised ProcessLookupError (EKill 4242 SIGTERM (Inl ProcessLookupError))
   \<and> io_res (close_port py_example
         (os_owner text_close_8080 True (Inl ProcessLookupError) 1) (JInt 8080) 0)
       = Inr (True, ''Process using port 8080 was already terminated'')"
proof -
  have a: "EKill 4242 SIGTERM (Inl ProcessLookupError)
     \<in> set (io_log (close_port py_example
         (os_owner text_close_8080 True (Inl ProcessLookupError) 1) (JInt 8080) 0))"
    unfolding close_vanished_example io_log_def by simp
  have b: "kill_raised ProcessLookupError (EKill 4242 SIGTERM (Inl ProcessLookupError))"
    by (simp add: kill_raised_def is_graceful_kill_def)
  from vanished_process_is_success [OF a b]
  have "io_res (close_port py_example
         (os_owner text_close_8080 True (Inl ProcessLookupError) 1) (JInt 8080) 0)
       = Inr (True, ''Process using port 8080 was already terminated'')"
    by (simp add: show_int_def)
  with a b show ?thesis by blast
qed

text \<open>
  Claim C6.  For every close request, a kill call, graceful or forced, that raises
  \<^verbatim>\<open>PermissionError\<close> makes \<^verbatim>\<open>close_port\<close> return failure with the message
  \<^verbatim>\<open>Permission denied - cannot terminate process using port {port}\<close>, and the invocation
  does not fail: the program prints the close response carrying that outcome and ends
  normally (exit code 0).  The message is distinct: \<^verbatim>\<open>close_port\<close> returns it, and the
  program prints it, only when a kill call raised \<^verbatim>\<open>PermissionError\<close>, and then always
  with success false.
\<close>

theorem permission_denied_is_failure:
  assumes "receives py os w data" and "close_request data port"
  shows "((\<exists>e \<in> set (io_log (close_port py os port (started os w))).
             kill_raised PermissionError e)
          \<longrightarrow> io_res (close_port py os port (started os w))
                = Inr (False, ''Permission denied - cannot terminate process using port ''
                         @ py_str py port)
            \<and> exit_code (main py os w) = 0
            \<and> printed (io_log (main py os w))
                = [JObj [(''success'', JBool False), (''action'', JStr ''close''),
                     (''port'', port),
                     (''message'', JStr (''Permission denied - cannot terminate process using port ''
                         @ py_str py port))]])
       \<and> (io_res (close_port py os port (started os w))
             = Inr (b, ''Permission denied - cannot terminate process using port ''
                      @ py_str py port)
          \<longrightarrow> \<not> b
            \<and> (\<exists>e \<in> set (io_log (close_port py os port (started os w))).
                  kill_raised PermissionError e))
       \<and> (map (field ''message'') (printed (io_log (main py os w)))
             = [Some (JStr (''Permission denied - cannot terminate process using port ''
                       @ py_str py port))]
          \<longrightarrow> (\<exists>e \<in> set (io_log (close_port py os port (started os w))).
                  kill_raised PermissionError e))"
proof -
  let ?C = "close_port py os port (started os w)"
  let ?m = "''Permission denied - cannot terminate process using port '' @ py_str py port"
  have fwd: "io_res ?C = Inr (False, ?m)" if "\<exists>e \<in> set (io_log ?C). kill_raised PermissionError e"
  proof -
    from that obtain e where "e \<in> set (io_log ?C)" "kill_raised PermissionError e" by blast
    from close_port_raised [OF this] show ?thesis by (simp add: terminate_failed_def)
  qed
  have a: "(\<exists>e \<in> set (io_log ?C). kill_raised PermissionError e)
          \<longrightarrow> io_res ?C = Inr (False, ?m)
            \<and> exit_code (main py os w) = 0
            \<and> printed (io_log (main py os w))
                = [JObj [(''success'', JBool False), (''action'', JStr ''close''),
                     (''port'', port), (''message'', JStr ?m)]]"
  proof
    assume "\<exists>e \<in> set (io_log ?C). kill_raised PermissionError e"
    then have r: "io_res ?C = Inr (False, ?m)" by (rule fwd)
    from r main_close_printed [OF assms r] show "io_res ?C = Inr (False, ?m)
            \<and> exit_code (main py os w) = 0
            \<and> printed (io_log (main py os w))
                = [JObj [(''success'', JBool False), (''action'', JStr ''close''),
                     (''port'', port), (''message'', JStr ?m)]]"
      by simp
  qed
  have b: "io_res ?C = Inr (b, ?m)
          \<longrightarrow> \<not> b \<and> (\<exists>e \<in> set (io_log ?C). kill_raised PermissionError e)"
  proof
    assume r: "io_res ?C = Inr (b, ?m)"
    from close_port_denied [OF r]
    have k: "\<exists>e \<in> set (io_log ?C). kill_raised PermissionError e" .
    from fwd [OF k] r have "\<not> b" by simp
    with k show "\<not> b \<and> (\<exists>e \<in> set (io_log ?C). kill_raised PermissionError e)" by simp
  qed
  have c: "map (field ''message'') (printed (io_log (main py os w))) = [Some (JStr ?m)]
          \<longrightarrow> (\<exists>e \<in> set (io_log ?C). kill_raised PermissionError e)"
  proof
    assume p: "map (field ''message'') (printed (io_log (main py os w))) = [Some (JStr ?m)]"
    obtain ok msg where r: "io_res ?C = Inr (ok, msg)"
      using close_port_total [of py os port "started os w"] by auto
    from main_close_printed(2) [OF assms r] p have "msg = ?m" by (simp add: field_def)
    with r have "io_res ?C = Inr (ok, ?m)" by simp
    then show "\<exists>e \<in> set (io_log ?C). kill_raised PermissionError e"
      by (rule close_port_denied)
  qed
  from a b c show ?thesis by (intro conjI)
qed

lemma close_denied_example:
  "close_port py_example (os_owner text_close_8080 True (Inl PermissionError) 1) (JInt 8080) 0
   = (Inr (False, ''Permission denied - cannot terminate process using port 8080''),
      [ERun (Shell ''netstat -tlnp 2>/dev/null | grep :8080'') (Inr (1, [])),
       ERun (Argv [''lsof'', ''-i'', '':8080'', ''-t'']) (Inr (0, ''4242'' @ [CHR 0x0A])),
       ERun (ps_comm ''4242'') (Inr (0, ''node'' @ [CHR 0x0A])),
       ERun (ps_args ''4242'') (Inr (0, ''node server.js'' @ [CHR 0x0A])),
       EKill 4242 SIGTERM (Inl PermissionError)], 1)"
  by (simp add: io_defs lookup_defs close_defs os_owner_def)

lemma close_8080_received:
  "receives py_example (os_owner text_close_8080 tools answer need) 0
     (JObj [(''action'', JStr ''close''), (''port_to_close'', JInt 8080)])"
  "close_request (JObj [(''action'', JStr ''close''), (''port_to_close'', JInt 8080)]) (JInt 8080)"
  "started (os_owner text_close_8080 tools answer need) 0 = 0"
  by (simp_all add: example_defs py_strip_def py_isspace_def)

theorem permission_denied_is_failure_witness:
  "receives py_example (os_owner text_close_8080 True (Inl PermissionError) 1) 0
     (JObj [(''action'', JStr ''close''), (''port_to_close'', JInt 8080)])
   \<and> close_request (JObj [(''action'', JStr ''close''), (''port_to_close'', JInt 8080)])
       (JInt 8080)
   \<and> EKill 4242 SIGTERM (Inl PermissionError)
       \<in> set (io_log (close_port py_example (os_owner text_close_8080 True (Inl PermissionError) 1)
           (JInt 8080) (started (os_owner text_close_8080 True (Inl PermissionError) 1) 0)))
   \<and> kill_raised PermissionError (EKill 4242 SIGTERM (Inl PermissionError))
   \<and> io_res (close_port py_example (os_owner text_close_8080 True (Inl PermissionError) 1)
        (JInt 8080) (started (os_owner text_close_8080 True (Inl PermissionError) 1) 0))
       = Inr (False, ''Permission denied - cannot terminate process using port 8080'')
   \<and> exit_code (main py_example (os_owner text_close_8080 True (Inl PermissionError) 1) 0) = 0
   \<and> printed (io_log (main py_example (os_owner text_close_8080 True (Inl PermissionError) 1) 0))
       = [JObj [(''success'', JBool False), (''action'', JStr ''close''), (''port'', JInt 8080),
           (''message'', JStr ''Permission denied - cannot terminate process using port 8080'')]]
   \<and> map (field ''message'')
        (printed (io_log (main py_example
           (os_owner text_close_8080 True (Inl PermissionError) 1) 0)))
       = [Some (JStr ''Permission denied - cannot terminate process using port 8080'')]
   \<and> (\<exists>e \<in> set (io_log (close_port py_example
           (os_owner text_close_8080 True (Inl PermissionError) 1) (JInt 8080)
           (started (os_owner text_close_8080 True (Inl PermissionError) 1) 0))).
         kill_raised PermissionError e)"
proof -
  let ?os = "os_owner text_close_8080 True (Inl PermissionError) 1"
  let ?C = "close_port py_example ?os (JInt 8080) (started ?os 0)"
  note a = close_8080_received(1) [of True "Inl PermissionError" 1]
  note b = close_8080_received(2)
  note t = permission_denied_is_failure [OF a b]
  have c: "EKill 4242 SIGTERM (Inl PermissionError) \<in> set (io_log ?C)"
    unfolding close_8080_received(3) close_denied_example io_log_def by simp
  have d: "kill_raised PermissionError (EKill 4242 SIGTERM (Inl PermissionError))"
    by (simp add: kill_raised_def is_graceful_kill_def)
  from c d have k: "\<exists>e \<in> set (io_log ?C). kill_raised PermissionError e" by blast
  from t [THEN conjunct1] k
  have e: "io_res ?C = Inr (False, ''Permission denied - cannot terminate process using port 8080'')"
    "exit_code (main py_example ?os 0) = 0"
    "printed (io_log (main py_example ?os 0))
       = [JObj [(''success'', JBool False), (''action'', JStr ''close''), (''port'', JInt 8080),
           (''message'', JStr ''Permission denied - cannot terminate process using port 8080'')]]"
    by (simp_all add: show_int_def)
  from e(3) have f: "map (field ''message'') (printed (io_log (main py_example ?os 0)))
       = [Some (JStr ''Permission denied - cannot terminate process using port 8080'')]"
    by (simp add: field_def)
  from t [of False, THEN conjunct2, THEN conjunct1] e(1)
  have g: "\<exists>e \<in> set (io_log ?C). kill_raised PermissionError e"
    by (simp add: show_int_def)
  from t [THEN conjunct2, THEN conjunct2] f
  have h: "\<exists>e \<in> set (io_log ?C). kill_raised PermissionError e"
    by (simp add: show_int_def)
  from a b c d e f g show ?thesis by (intro conjI)
qed





lemma scan_default_received:
  "receives py_example (os_idle text_scan_default) () (JObj [(''action'', JStr ''scan'')])"
  "scan_request (JObj [(''action'', JStr ''scan'')]) 1 65535 (JBool False)"
  by (simp_all add: example_defs py_strip_def py_isspace_def)

lemma scan_common_received:
  "receives py_example (os_idle text_scan_common) ()
     (JObj [(''action'', JStr ''scan''), (''common_ports_only'', JBool True)])"
  "scan_request (JObj [(''action'', JStr ''scan''), (''common_ports_only'', JBool True)])
     1 65535 (JBool True)"
  by (simp_all add: example_defs py_strip_def py_isspace_def)

lemma scan_8080_received:
  "receives py_example (os_owner text_scan_8080 tools answer need) 0
     (JObj [(''action'', JStr ''scan''), (''port_range'', JArr [JInt 8079, JInt 8081]),
            (''common_ports_only'', JBool False)])"
  "scan_request (JObj [(''action'', JStr ''scan''), (''port_range'', JArr [JInt 8079, JInt 8081]),
            (''common_ports_only'', JBool False)]) 8079 8081 (JBool False)"
  by (simp_all add: example_defs py_strip_def py_isspace_def)

text \<open>
  Claim C1, as stated: for every scan request with \<^verbatim>\<open>common_ports_only\<close> false whose
  range has \<^verbatim>\<open>end - start > 10000\<close>, exactly 10,000 ports are scanned and
  \<^verbatim>\<open>total_scanned\<close> reports that count.  On the request \<^verbatim>\<open>{"action":"scan"}\<close> (the
  default range 1 to 65535) the program probes 10,001 ports and reports
  \<^verbatim>\<open>total_scanned\<close> 10001: the end is set to \<^verbatim>\<open>start + 10000\<close> and the range is
  scanned with both ends included.
\<close>

theorem scan_cap_counts_10001:
  "length (probed_ports (io_log (main py_example (os_idle text_scan_default) ()))) = 10001
   \<and> map (field ''total_scanned'')
        (printed (io_log (main py_example (os_idle text_scan_default) ())))
      = [Some (JInt 10001)]
   \<and> length (probed_ports (io_log (main py_example (os_idle text_scan_default) ()))) \<noteq> 10000"
  using main_scan_request [OF scan_default_received, simplified]
  by (auto simp add: field_def simp del: upto_rec_numeral)

text \<open>
  Claim C1, amended: for every scan request with \<^verbatim>\<open>common_ports_only\<close> false whose
  range has \<^verbatim>\<open>end - start > 10000\<close>, the end is clamped to \<^verbatim>\<open>start + 10000\<close>: the
  ports probed are exactly \<^verbatim>\<open>start\<close>, \<^verbatim>\<open>start + 1\<close>, ..., \<^verbatim>\<open>start + 10000\<close> in this
  order, each once, whatever the requested end was.  That is a span
  (\<^verbatim>\<open>end - start\<close>) of 10,000 and a count of 10,001 ports, and \<^verbatim>\<open>total_scanned\<close> in
  the response is 10001, the number of ports probed.
\<close>

theorem scan_cap:
  assumes "receives py os w data" and "scan_request data lo hi common"
    and "\<not> py_truthy common" and "hi - lo > 10000"
  shows "exit_code (main py os w) = 0
     \<and> probed_ports (io_log (main py os w)) = map JInt [lo..lo + 10000]
     \<and> length (probed_ports (io_log (main py os w))) = 10001
     \<and> map (field ''total_scanned'') (printed (io_log (main py os w))) = [Some (JInt 10001)]"
proof -
  from assms(4) have "lo \<le> hi" by simp
  from main_scan_request [OF assms(1,2) this] assms(3,4) show ?thesis
    by (auto simp add: field_def)
qed

theorem scan_cap_witness:
  "receives py_example (os_idle text_scan_default) () (JObj [(''action'', JStr ''scan'')])
   \<and> scan_request (JObj [(''action'', JStr ''scan'')]) 1 65535 (JBool False)
   \<and> \<not> py_truthy (JBool False) \<and> (65535 :: int) - 1 > 10000
   \<and> exit_code (main py_example (os_idle text_scan_default) ()) = 0
   \<and> probed_ports (io_log (main py_example (os_idle text_scan_default) ()))
       = map JInt [1..1 + 10000]
   \<and> map (field ''total_scanned'')
        (printed (io_log (main py_example (os_idle text_scan_default) ())))
      = [Some (JInt 10001)]"
proof -
  have c: "\<not> py_truthy (JBool False)" by simp
  have d: "(65535 :: int) - 1 > 10000" by simp
  from scan_cap [OF scan_default_received c d] scan_default_received c d
  show ?thesis by blast
qed

text \<open>
  Claim C8.  For every scan request whose \<^verbatim>\<open>common_ports_only\<close> is true, the ports
  probed are exactly the members of \<^verbatim>\<open>COMMON_PORTS\<close> that lie in the requested range,
  in the order of \<^verbatim>\<open>COMMON_PORTS\<close>; the limit of 10,000 is not applied, so the range in
  the response is the requested one however wide; and \<^verbatim>\<open>total_scanned\<close> is the number
  of those ports.  The witness is the default range 1 to 65535: all 33 common ports are
  probed.
\<close>

theorem scan_common_ports:
  assumes "receives py os w data" and "scan_request data lo hi common"
    and "py_truthy common" and "lo \<le> hi"
  shows "exit_code (main py os w) = 0
     \<and> probed_ports (io_log (main py os w))
       = map JInt [p \<leftarrow> COMMON_PORTS. lo \<le> p \<and> p \<le> hi]
     \<and> map (field ''total_scanned'') (printed (io_log (main py os w)))
       = [Some (JInt (int (length [p \<leftarrow> COMMON_PORTS. lo \<le> p \<and> p \<le> hi])))]
     \<and> map (field ''scan_range'') (printed (io_log (main py os w)))
       = [Some (JArr [JInt lo, JInt hi])]"
  using main_scan_request [OF assms(1,2,4)] assms(3)
  by (auto simp add: field_def)

theorem scan_common_ports_witness:
  "receives py_example (os_idle text_scan_common) ()
     (JObj [(''action'', JStr ''scan''), (''common_ports_only'', JBool True)])
   \<and> scan_request (JObj [(''action'', JStr ''scan''), (''common_ports_only'', JBool True)])
       1 65535 (JBool True)
   \<and> py_truthy (JBool True) \<and> (1 :: int) \<le> 65535
   \<and> probed_ports (io_log (main py_example (os_idle text_scan_common) ()))
       = map JInt COMMON_PORTS
   \<and> map (field ''total_scanned'')
        (printed (io_log (main py_example (os_idle text_scan_common) ())))
       = [Some (JInt 33)]
   \<and> map (field ''scan_range'')
        (printed (io_log (main py_example (os_idle text_scan_common) ())))
       = [Some (JArr [JInt 1, JInt 65535])]"
proof -
  have c: "py_truthy (JBool True)" by simp
  have d: "(1 :: int) \<le> 65535" by simp
  have f: "[p \<leftarrow> COMMON_PORTS. 1 \<le> p \<and> p \<le> 65535] = COMMON_PORTS"
    by (simp add: COMMON_PORTS_def)
  have l: "int (length COMMON_PORTS) = 33" by (simp add: COMMON_PORTS_def)
  from scan_common_ports [OF scan_common_received c d] scan_common_received c d
  show ?thesis unfolding f l by blast
qed

text \<open>
  Claim C10.  For every scan request with \<^verbatim>\<open>common_ports_only\<close> false whose span exceeds
  10,000, the \<^verbatim>\<open>scan_range\<close> of the response is the clamped range
  \<^verbatim>\<open>[start, start + 10000]\<close>: the requested end was overwritten and is not echoed.  For
  every other scan request \<^verbatim>\<open>scan_range\<close> is the requested, or defaulted, range
  unchanged.
\<close>

theorem scan_range_reported:
  assumes "receives py os w data" and "scan_request data lo hi common" and "lo \<le> hi"
  shows "map (field ''scan_range'') (printed (io_log (main py os w)))
       = [Some (JArr [JInt lo,
            JInt (if hi - lo > 10000 \<and> \<not> py_truthy common then lo + 10000 else hi)])]"
  using main_scan_request [OF assms]
  by (auto simp add: field_def)

theorem scan_range_reported_witness:
  "receives py_example (os_idle text_scan_default) () (JObj [(''action'', JStr ''scan'')])
   \<and> scan_request (JObj [(''action'', JStr ''scan'')]) 1 65535 (JBool False)
   \<and> (1 :: int) \<le> 65535
   \<and> map (field ''scan_range'')
        (printed (io_log (main py_example (os_idle text_scan_default) ())))
       = [Some (JArr [JInt 1, JInt 10001])]
   \<and> receives py_example (os_owner text_scan_8080 True (Inr ()) 1) 0
       (JObj [(''action'', JStr ''scan''), (''port_range'', JArr [JInt 8079, JInt 8081]),
            (''common_ports_only'', JBool False)])
   \<and> scan_request (JObj [(''action'', JStr ''scan''),
            (''port_range'', JArr [JInt 8079, JInt 8081]),
            (''common_ports_only'', JBool False)]) 8079 8081 (JBool False)
   \<and> (8079 :: int) \<le> 8081
   \<and> map (field ''scan_range'')
        (printed (io_log (main py_example (os_owner text_scan_8080 True (Inr ()) 1) 0)))
       = [Some (JArr [JInt 8079, JInt 8081])]"
proof -
  have d: "(1 :: int) \<le> 65535" by simp
  have e: "(8079 :: int) \<le> 8081" by simp
  from scan_range_reported [OF scan_default_received d]
  have a: "map (field ''scan_range'')
        (printed (io_log (main py_example (os_idle text_scan_default) ())))
       = [Some (JArr [JInt 1, JInt 10001])]" by simp
  note r1 = scan_8080_received(1) [of True "Inr ()" 1]
  note r2 = scan_8080_received(2)
  from scan_range_reported [OF r1 r2 e]
  have b: "map (field ''scan_range'')
        (printed (io_log (main py_example (os_owner text_scan_8080 True (Inr ()) 1) 0)))
       = [Some (JArr [JInt 8079, JInt 8081])]" by simp
  from a b d e scan_default_received r1 r2
  show ?thesis by blast
qed








end
